theory Spec2Isabelle
  imports Main "HOL-Library.Word" "HOL-Library.Sublist"
begin

unbundle bit_operations_syntax

section \<open>The operating system as seen by the binary manager\<close>

text \<open>
  The binary manager of \<^verbatim>\<open>backend/service\<close> talks to the operating system through
  a handful of library calls: \<^verbatim>\<open>os.UserCacheDir\<close>, \<^verbatim>\<open>os.MkdirAll\<close>,
  \<^verbatim>\<open>filepath.IsAbs/Abs/Join\<close>, \<^verbatim>\<open>fs.ReadFile\<close>, \<^verbatim>\<open>os.WriteFile\<close>, \<^verbatim>\<open>os.Stat\<close>,
  \<^verbatim>\<open>os.Chmod\<close>, \<^verbatim>\<open>exec.Cmd.Start\<close>, \<^verbatim>\<open>os.Process.Kill\<close> and \<^verbatim>\<open>log.Printf\<close>.
  The model keeps an explicit \<open>world\<close>: the file system, the table of child
  processes, and the trace of every library call made so far, in order. Whether a call
  that the operating system may refuse succeeds is decided by an \<open>os_env\<close>, a record of
  oracles that may look at the whole world; a theorem that holds for every \<open>os_env\<close>
  holds however the operating system behaves.
\<close>

type_synonym byte = "8 word"
type_synonym FileMode = "32 word"
type_synonym pid = nat
type_synonym Context = nat

text \<open>The permission argument \<^verbatim>\<open>0755\<close> of the source, and the three execute bits \<^verbatim>\<open>0111\<close>.\<close>

definition perm_0755 :: FileMode where
  "perm_0755 = 493"

definition executable :: "FileMode \<Rightarrow> bool" where
  "executable m = (m AND 73 \<noteq> 0)"

datatype node = Dir FileMode | File "byte list" FileMode

datatype stream = OsStdout | OsStderr

text \<open>
  \<^verbatim>\<open>exec.Cmd\<close>, with the fields the source sets. \<open>cmd_Process\<close> is \<^verbatim>\<open>cmd.Process\<close>:
  \<open>None\<close> is the nil pointer, and a successful \<^verbatim>\<open>Start\<close> sets it.
\<close>

record Cmd =
  cmd_ctx :: Context
  cmd_Path :: string
  cmd_Dir :: string
  cmd_Stdout :: "stream option"
  cmd_Stderr :: "stream option"
  cmd_Process :: "pid option"

text \<open>
  The errors of the source are \<^verbatim>\<open>fmt.Errorf\<close> values; each constructor stands for the
  messages listed beside it (the wrapped cause of \<^verbatim>\<open>%w\<close> is left out).
  \<^item> \<open>ConfigError msg\<close>: \<^verbatim>\<open>binary manager is disabled\<close>, \<^verbatim>\<open>no binaries in startup_order\<close>,
    \<^verbatim>\<open>failed to get cache directory\<close>, \<^verbatim>\<open>failed to create app cache directory\<close>,
    \<^verbatim>\<open>failed to resolve bin path\<close>;
  \<^item> \<open>PayloadNotFoundError name\<close>: \<^verbatim>\<open>failed to read embedded binary %s\<close>;
  \<^item> \<open>ExtractionError name\<close>: \<^verbatim>\<open>failed to write binary %s\<close>;
  \<^item> \<open>BinaryNotFoundError name path\<close>: \<^verbatim>\<open>binary %s not found at %s\<close>;
  \<^item> \<open>LaunchError name\<close>: \<^verbatim>\<open>failed to start %s\<close>;
  \<^item> \<open>NoBinariesStartedError\<close>: \<^verbatim>\<open>failed to start any binaries\<close>.
\<close>

datatype error =
    ConfigError string
  | PayloadNotFoundError string
  | ExtractionError string
  | BinaryNotFoundError string string
  | LaunchError string
  | NoBinariesStartedError

text \<open>One constructor for each \<^verbatim>\<open>log.Printf\<close>/\<^verbatim>\<open>log.Println\<close> of the source.\<close>

datatype logmsg =
    BinaryManagerFailed error
  | WarnFailedToStartBinaries error
  | UsingEmbeddedMode
  | UsingLocalMode string
  | UsingLocalBinDirectory string
  | FailedToStart string error
  | StartedCount nat nat
  | Extracted string string
  | WarnChmodFailed string
  | UsingLocalBinary string
  | StartedSuccessfully string pid
  | Terminating nat pid
  | FailedToKill nat

text \<open>
  The trace: one event for each library call, with its arguments and whether it
  succeeded. \<open>EvGoWait\<close> is the \<^verbatim>\<open>go func\<close> of \<^verbatim>\<open>startBinary\<close> that waits for the
  process; what that goroutine logs later, at a time of its own, is not modelled.
\<close>

datatype event =
    EvMkdirAll string FileMode bool
  | EvReadFile string bool
  | EvWriteFile string "byte list" FileMode bool
  | EvStat string bool
  | EvChmod string FileMode bool
  | EvStart Cmd "pid option"
  | EvGoWait string pid
  | EvKill pid bool
  | EvSetContext Context
  | EvLog logmsg

record process =
  proc_cmd :: Cmd
  proc_killed :: bool

record world =
  nodes :: "string \<rightharpoonup> node"
  procs :: "pid \<rightharpoonup> process"
  nextPid :: pid
  trace :: "event list"

datatype write_outcome = WriteOk | OpenFails | WriteFailsAfter nat

datatype API = API

record os_env =
  UserCacheDir :: "string option"
  IsAbs :: "string \<Rightarrow> bool"
  Abs :: "string \<Rightarrow> string option"
  Join :: "string list \<Rightarrow> string"
  umask :: FileMode
  mkdirRefused :: "world \<Rightarrow> string \<Rightarrow> bool"
  writeOutcome :: "world \<Rightarrow> string \<Rightarrow> write_outcome"
  statRefused :: "world \<Rightarrow> string \<Rightarrow> bool"
  chmodRefused :: "world \<Rightarrow> string \<Rightarrow> bool"
  startRefused :: "world \<Rightarrow> Cmd \<Rightarrow> bool"
  killRefused :: "world \<Rightarrow> pid \<Rightarrow> bool"
  NewAPI :: "API option"

definition emit :: "event \<Rightarrow> world \<Rightarrow> world" where
  "emit e w = w\<lparr>trace := trace w @ [e]\<rparr>"

definition logf :: "logmsg \<Rightarrow> world \<Rightarrow> world" where
  "logf m w = emit (EvLog m) w"

text \<open>The events emitted between an earlier world and a later one.\<close>

definition since :: "world \<Rightarrow> world \<Rightarrow> event list" where
  "since w w' = drop (length (trace w)) (trace w')"

subsection \<open>Library calls\<close>

text \<open>
  \<^verbatim>\<open>os.MkdirAll(path, perm)\<close>: nothing to do when the directory exists, an error when
  the path is a file. (The parents it creates on the way are not tracked.)
\<close>

definition os_MkdirAll :: "os_env \<Rightarrow> string \<Rightarrow> FileMode \<Rightarrow> world \<Rightarrow> bool \<times> world" where
  "os_MkdirAll env path perm w =
     (case nodes w path of
        Some (Dir m) \<Rightarrow> (True, emit (EvMkdirAll path perm True) w)
      | Some (File c m) \<Rightarrow> (False, emit (EvMkdirAll path perm False) w)
      | None \<Rightarrow>
          if mkdirRefused env w path then (False, emit (EvMkdirAll path perm False) w)
          else (True, emit (EvMkdirAll path perm True)
                        (w\<lparr>nodes := (nodes w)(path \<mapsto> Dir (perm AND NOT (umask env)))\<rparr>)))"

text \<open>
  \<^verbatim>\<open>fs.ReadFile(bm.binaries, path)\<close> on the embedded file system, a read-only map from
  paths to bytes.
\<close>

definition fs_ReadFile :: "(string \<rightharpoonup> byte list) \<Rightarrow> string \<Rightarrow> world \<Rightarrow> byte list option \<times> world" where
  "fs_ReadFile fsys path w =
     (case fsys path of
        None \<Rightarrow> (None, emit (EvReadFile path False) w)
      | Some data \<Rightarrow> (Some data, emit (EvReadFile path True) w))"

text \<open>
  \<^verbatim>\<open>os.WriteFile(name, data, perm)\<close>: a file that does not exist is created with
  \<open>perm\<close> (before umask); an existing file is truncated and keeps its permissions.
  The call fails on a directory, when the file cannot be opened, or part-way through
  the write (the file then holds a prefix of the data).
\<close>

definition os_WriteFile :: "os_env \<Rightarrow> string \<Rightarrow> byte list \<Rightarrow> FileMode \<Rightarrow> world \<Rightarrow> bool \<times> world" where
  "os_WriteFile env name data perm w =
     (let m' = (case nodes w name of Some (File c m) \<Rightarrow> m | _ \<Rightarrow> perm AND NOT (umask env))
      in case nodes w name of
           Some (Dir m) \<Rightarrow> (False, emit (EvWriteFile name data perm False) w)
         | _ \<Rightarrow>
           (case writeOutcome env w name of
              OpenFails \<Rightarrow> (False, emit (EvWriteFile name data perm False) w)
            | WriteFailsAfter k \<Rightarrow>
                (False, emit (EvWriteFile name data perm False)
                          (w\<lparr>nodes := (nodes w)(name \<mapsto> File (take k data) m')\<rparr>))
            | WriteOk \<Rightarrow>
                (True, emit (EvWriteFile name data perm True)
                         (w\<lparr>nodes := (nodes w)(name \<mapsto> File data m')\<rparr>))))"

text \<open>\<^verbatim>\<open>os.Stat(name)\<close>, of which the source looks at the error only.\<close>

definition os_Stat :: "os_env \<Rightarrow> string \<Rightarrow> world \<Rightarrow> bool \<times> world" where
  "os_Stat env name w =
     (let ok = (nodes w name \<noteq> None \<and> \<not> statRefused env w name)
      in (ok, emit (EvStat name ok) w))"

definition chmod_node :: "FileMode \<Rightarrow> node \<Rightarrow> node" where
  "chmod_node mode n = (case n of Dir m \<Rightarrow> Dir mode | File c m \<Rightarrow> File c mode)"

definition os_Chmod :: "os_env \<Rightarrow> string \<Rightarrow> FileMode \<Rightarrow> world \<Rightarrow> bool \<times> world" where
  "os_Chmod env name mode w =
     (case nodes w name of
        None \<Rightarrow> (False, emit (EvChmod name mode False) w)
      | Some n \<Rightarrow>
          if chmodRefused env w name then (False, emit (EvChmod name mode False) w)
          else (True, emit (EvChmod name mode True)
                        (w\<lparr>nodes := (nodes w)(name \<mapsto> chmod_node mode n)\<rparr>)))"

text \<open>
  \<^verbatim>\<open>cmd.Start()\<close>: the operating system executes only a regular file that carries an
  execute bit, and may refuse for other reasons (a cancelled context, resource limits).
  On success the child gets a fresh process id.
\<close>

definition cmd_Start :: "os_env \<Rightarrow> Cmd \<Rightarrow> world \<Rightarrow> pid option \<times> world" where
  "cmd_Start env cmd w =
     (case nodes w (cmd_Path cmd) of
        Some (File c m) \<Rightarrow>
          if executable m \<and> \<not> startRefused env w cmd then
            (let p = nextPid w
             in (Some p, emit (EvStart cmd (Some p))
                           (w\<lparr>procs := (procs w)(p \<mapsto> \<lparr>proc_cmd = cmd, proc_killed = False\<rparr>),
                              nextPid := Suc p\<rparr>)))
          else (None, emit (EvStart cmd None) w)
      | _ \<Rightarrow> (None, emit (EvStart cmd None) w))"

text \<open>\<^verbatim>\<open>cmd.Process.Kill()\<close>, which fails for instance when the process has finished.\<close>

definition Process_Kill :: "os_env \<Rightarrow> pid \<Rightarrow> world \<Rightarrow> bool \<times> world" where
  "Process_Kill env p w =
     (case procs w p of
        None \<Rightarrow> (False, emit (EvKill p False) w)
      | Some pr \<Rightarrow>
          if killRefused env w p then (False, emit (EvKill p False) w)
          else (True, emit (EvKill p True)
                        (w\<lparr>procs := (procs w)(p \<mapsto> pr\<lparr>proc_killed := True\<rparr>)\<rparr>)))"

section \<open>The binary manager\<close>

record BinaryManager =
  useEmbedded :: bool
  binaries :: "string \<rightharpoonup> byte list"
  binPath :: string
  processes :: "Cmd list"
  execOrder :: "string list"
  cacheDir :: string

text \<open>
  \<^verbatim>\<open>config.BinariesConfig\<close> and its methods, which are written for a nil receiver:
  the receiver is a pointer, \<open>None\<close> when nil.
\<close>

record BinariesConfig =
  Enabled :: bool
  UseEmbedded :: bool
  BinPath :: string
  StartupOrder :: "string list"

definition IsEnabled :: "BinariesConfig option \<Rightarrow> bool" where
  "IsEnabled c = (case c of None \<Rightarrow> False | Some cfg \<Rightarrow> Enabled cfg)"

definition IsUseEmbedded :: "BinariesConfig option \<Rightarrow> bool" where
  "IsUseEmbedded c = (case c of None \<Rightarrow> False | Some cfg \<Rightarrow> UseEmbedded cfg)"

definition GetBinPath :: "BinariesConfig option \<Rightarrow> string" where
  "GetBinPath c = (case c of None \<Rightarrow> [] | Some cfg \<Rightarrow> BinPath cfg)"

definition GetStartupOrder :: "BinariesConfig option \<Rightarrow> string list" where
  "GetStartupOrder c = (case c of None \<Rightarrow> [] | Some cfg \<Rightarrow> StartupOrder cfg)"

text \<open>\<^verbatim>\<open>NewBinaryManager(useEmbedded, binaries, binPath, execOrder)\<close>.\<close>

definition NewBinaryManager ::
  "os_env \<Rightarrow> bool \<Rightarrow> (string \<rightharpoonup> byte list) \<Rightarrow> string \<Rightarrow> string list \<Rightarrow> world
     \<Rightarrow> (error + BinaryManager) \<times> world" where
  "NewBinaryManager env useEmb bins binPath0 order w =
     (if useEmb then
        (case UserCacheDir env of
           None \<Rightarrow> (Inl (ConfigError ''failed to get cache directory''), w)
         | Some userCacheDir \<Rightarrow>
             (let cdir = Join env [userCacheDir, ''wachat'', ''bin''];
                  (ok, w1) = os_MkdirAll env cdir perm_0755 w
              in if \<not> ok then (Inl (ConfigError ''failed to create app cache directory''), w1)
                 else (Inr \<lparr>useEmbedded = useEmb, binaries = bins, binPath = binPath0,
                            processes = [], execOrder = order, cacheDir = cdir\<rparr>, w1)))
      else
        (let resolved = (if \<not> IsAbs env binPath0 then Abs env binPath0 else Some binPath0)
         in case resolved of
              None \<Rightarrow> (Inl (ConfigError ''failed to resolve bin path''), w)
            | Some binPath1 \<Rightarrow>
                (Inr \<lparr>useEmbedded = useEmb, binaries = bins, binPath = binPath1,
                      processes = [], execOrder = order, cacheDir = binPath1\<rparr>,
                 logf (UsingLocalBinDirectory binPath1) w)))"

text \<open>
  \<^verbatim>\<open>NewBinaryManagerFromConfig(cfg, binaries)\<close>. \<open>cfg\<close> is an interface value: \<open>None\<close> is
  the nil interface, \<open>Some c\<close> an interface that holds the pointer \<open>c\<close> (itself nil or not).
\<close>

definition NewBinaryManagerFromConfig ::
  "os_env \<Rightarrow> BinariesConfig option option \<Rightarrow> (string \<rightharpoonup> byte list) \<Rightarrow> world
     \<Rightarrow> (error + BinaryManager) \<times> world" where
  "NewBinaryManagerFromConfig env cfg bins w =
     (case cfg of
        None \<Rightarrow> (Inl (ConfigError ''binary manager is disabled''), w)
      | Some c \<Rightarrow>
          if \<not> IsEnabled c then (Inl (ConfigError ''binary manager is disabled''), w)
          else
            (let startupOrder = GetStartupOrder c
             in if length startupOrder = 0
                then (Inl (ConfigError ''no binaries in startup_order''), w)
                else
                  (let binPath0 = GetBinPath c;
                       binPath1 = (if binPath0 = [] then ''./bin'' else binPath0);
                       useEmb = IsUseEmbedded c;
                       (r, w1) = NewBinaryManager env useEmb bins binPath1 startupOrder w
                   in case r of
                        Inl err \<Rightarrow> (Inl err, w1)
                      | Inr bm \<Rightarrow>
                          (Inr bm, if useEmb then logf UsingEmbeddedMode w1
                                   else logf (UsingLocalMode binPath1) w1))))"

text \<open>
  \<^verbatim>\<open>startBinary(ctx, name)\<close>: resolve the executable (extract it in embedded mode, look
  for it in local mode), then start it, keep the handle and leave a goroutine waiting
  for its exit. The result is the error (\<open>None\<close> for nil), the manager and the world.
  The body of the source function is written in three parts, in the order of the source:
  \<open>resolveEmbedded\<close> is the branch \<^verbatim>\<open>if bm.useEmbedded\<close>, \<open>resolveLocal\<close> its \<^verbatim>\<open>else\<close>
  branch, both giving the early error or \<^verbatim>\<open>executablePath\<close>, and \<open>launch\<close> is the rest,
  from \<^verbatim>\<open>exec.CommandContext\<close> to the final \<^verbatim>\<open>return nil\<close>. \<open>CommandContext\<close> is the
  command as \<^verbatim>\<open>exec.CommandContext(ctx, path)\<close> returns it, before the source sets
  \<^verbatim>\<open>Dir\<close>, \<^verbatim>\<open>Stdout\<close> and \<^verbatim>\<open>Stderr\<close>; the context is taken to be non-nil, as the one
  \<^verbatim>\<open>App.startup\<close> receives.
\<close>

definition CommandContext :: "Context \<Rightarrow> string \<Rightarrow> Cmd" where
  "CommandContext ctx path =
     \<lparr>cmd_ctx = ctx, cmd_Path = path, cmd_Dir = [], cmd_Stdout = None, cmd_Stderr = None,
      cmd_Process = None\<rparr>"

definition resolveEmbedded ::
  "os_env \<Rightarrow> string \<Rightarrow> BinaryManager \<Rightarrow> world \<Rightarrow> (error + string) \<times> world" where
  "resolveEmbedded env name bm w =
     (let binaryPath = Join env [''bin'', name];
          (rd, w1) = fs_ReadFile (binaries bm) binaryPath w
      in case rd of
           None \<Rightarrow> (Inl (PayloadNotFoundError name), w1)
         | Some data \<Rightarrow>
             (let executablePath = Join env [cacheDir bm, name];
                  (ok, w2) = os_WriteFile env executablePath data perm_0755 w1
              in if \<not> ok then (Inl (ExtractionError name), w2)
                 else (Inr executablePath, logf (Extracted name executablePath) w2)))"

definition resolveLocal ::
  "os_env \<Rightarrow> string \<Rightarrow> BinaryManager \<Rightarrow> world \<Rightarrow> (error + string) \<times> world" where
  "resolveLocal env name bm w =
     (let executablePath = Join env [cacheDir bm, name];
          (found, w1) = os_Stat env executablePath w
      in if \<not> found then (Inl (BinaryNotFoundError name executablePath), w1)
         else
           (let (ok, w2) = os_Chmod env executablePath perm_0755 w1;
                w3 = (if \<not> ok then logf (WarnChmodFailed name) w2 else w2)
            in (Inr executablePath, logf (UsingLocalBinary executablePath) w3)))"

definition launch ::
  "os_env \<Rightarrow> Context \<Rightarrow> string \<Rightarrow> string \<Rightarrow> BinaryManager \<Rightarrow> world
     \<Rightarrow> error option \<times> BinaryManager \<times> world" where
  "launch env ctx name executablePath bm w =
     (let cmd = (CommandContext ctx executablePath)
                  \<lparr>cmd_Dir := cacheDir bm, cmd_Stdout := Some OsStdout, cmd_Stderr := Some OsStderr\<rparr>;
          (started, w1) = cmd_Start env cmd w
      in case started of
           None \<Rightarrow> (Some (LaunchError name), bm, w1)
         | Some p \<Rightarrow>
             (let cmd' = cmd\<lparr>cmd_Process := Some p\<rparr>;
                  w2 = logf (StartedSuccessfully name p) w1;
                  bm' = bm\<lparr>processes := processes bm @ [cmd']\<rparr>
              in (None, bm', emit (EvGoWait name p) w2)))"

definition startBinary ::
  "os_env \<Rightarrow> Context \<Rightarrow> string \<Rightarrow> BinaryManager \<Rightarrow> world
     \<Rightarrow> error option \<times> BinaryManager \<times> world" where
  "startBinary env ctx name bm w =
     (let (r, w1) = (if useEmbedded bm then resolveEmbedded env name bm w
                     else resolveLocal env name bm w)
      in case r of
           Inl err \<Rightarrow> (Some err, bm, w1)
         | Inr executablePath \<Rightarrow> launch env ctx name executablePath bm w1)"

text \<open>
  \<^verbatim>\<open>StartAll(ctx)\<close>. The \<^verbatim>\<open>for ... range bm.execOrder\<close> loop is \<open>startLoop\<close>, with the
  counter \<^verbatim>\<open>successCount\<close> as an argument (a Go \<^verbatim>\<open>int\<close>; it never exceeds the length
  of the slice, so it cannot overflow and is a \<open>nat\<close> here).
\<close>

fun startLoop ::
  "os_env \<Rightarrow> Context \<Rightarrow> string list \<Rightarrow> nat \<Rightarrow> BinaryManager \<Rightarrow> world
     \<Rightarrow> nat \<times> BinaryManager \<times> world" where
  "startLoop env ctx [] successCount bm w = (successCount, bm, w)"
| "startLoop env ctx (binaryName # rest) successCount bm w =
     (case startBinary env ctx binaryName bm w of
        (Some err, bm1, w1) \<Rightarrow>
          startLoop env ctx rest successCount bm1 (logf (FailedToStart binaryName err) w1)
      | (None, bm1, w1) \<Rightarrow> startLoop env ctx rest (successCount + 1) bm1 w1)"

definition StartAll ::
  "os_env \<Rightarrow> Context \<Rightarrow> BinaryManager \<Rightarrow> world \<Rightarrow> error option \<times> BinaryManager \<times> world" where
  "StartAll env ctx bm w =
     (let (successCount, bm1, w1) = startLoop env ctx (execOrder bm) 0 bm w
      in if successCount = 0 then (Some NoBinariesStartedError, bm1, w1)
         else (None, bm1, logf (StartedCount successCount (length (execOrder bm))) w1))"

definition GetProcessCount :: "BinaryManager \<Rightarrow> nat" where
  "GetProcessCount bm = length (processes bm)"

text \<open>
  \<^verbatim>\<open>Cleanup()\<close>: the loop over \<^verbatim>\<open>bm.processes\<close> with its index. The method has no
  result; the model returns the manager as the call leaves it, and the world.
\<close>

fun cleanupLoop :: "os_env \<Rightarrow> nat \<Rightarrow> Cmd list \<Rightarrow> world \<Rightarrow> world" where
  "cleanupLoop env i [] w = w"
| "cleanupLoop env i (cmd # rest) w =
     (case cmd_Process cmd of
        None \<Rightarrow> cleanupLoop env (Suc i) rest w
      | Some p \<Rightarrow>
          (let w1 = logf (Terminating i p) w;
               (ok, w2) = Process_Kill env p w1;
               w3 = (if \<not> ok then logf (FailedToKill i) w2 else w2)
           in cleanupLoop env (Suc i) rest w3))"

definition Cleanup :: "os_env \<Rightarrow> BinaryManager \<Rightarrow> world \<Rightarrow> BinaryManager \<times> world" where
  "Cleanup env bm w = (bm, cleanupLoop env 0 (processes bm) w)"

section \<open>The hosting application\<close>

record AIConfig =
  BaseURL :: string
  APIKey :: string
  Model :: string

record Config =
  AI :: "AIConfig option"
  Binaries :: "BinariesConfig option"

record App =
  app_ctx :: "Context option"
  chatAPI :: API
  binaryManager :: "BinaryManager option"

text \<open>
  \<^verbatim>\<open>NewApp(cfg)\<close>. \<open>Inl\<close> is a panic: the explicit one when \<^verbatim>\<open>backend.NewAPI\<close> fails
  (that package is outside this model; \<open>NewAPI env\<close> is its result), or the nil
  dereference of \<^verbatim>\<open>cfg.Binaries\<close>. The pointer \<^verbatim>\<open>cfg.Binaries\<close> is passed as an
  interface, which is therefore never the nil interface.
\<close>

definition NewApp ::
  "os_env \<Rightarrow> Config option \<Rightarrow> (string \<rightharpoonup> byte list) \<Rightarrow> world \<Rightarrow> (string + App) \<times> world" where
  "NewApp env cfg bins w =
     (case NewAPI env of
        None \<Rightarrow> (Inl ''Failed to initialize API'', w)
      | Some api \<Rightarrow>
          (case cfg of
             None \<Rightarrow> (Inl ''nil pointer dereference'', w)
           | Some c \<Rightarrow>
               (let (r, w1) = NewBinaryManagerFromConfig env (Some (Binaries c)) bins w
                in case r of
                     Inl err \<Rightarrow>
                       (Inr \<lparr>app_ctx = None, chatAPI = api, binaryManager = None\<rparr>,
                        logf (BinaryManagerFailed err) w1)
                   | Inr bm \<Rightarrow>
                       (Inr \<lparr>app_ctx = None, chatAPI = api, binaryManager = Some bm\<rparr>, w1))))"

text \<open>\<^verbatim>\<open>App.startup(ctx)\<close> and \<^verbatim>\<open>App.shutdown(ctx)\<close>.\<close>

definition startup :: "os_env \<Rightarrow> Context \<Rightarrow> App \<Rightarrow> world \<Rightarrow> App \<times> world" where
  "startup env ctx a w =
     (let a1 = a\<lparr>app_ctx := Some ctx\<rparr>;
          w1 = emit (EvSetContext ctx) w
      in case binaryManager a1 of
           None \<Rightarrow> (a1, w1)
         | Some bm \<Rightarrow>
             (let (err, bm1, w2) = StartAll env ctx bm w1;
                  w3 = (case err of Some e \<Rightarrow> logf (WarnFailedToStartBinaries e) w2 | None \<Rightarrow> w2)
              in (a1\<lparr>binaryManager := Some bm1\<rparr>, w3)))"

definition shutdown :: "os_env \<Rightarrow> Context \<Rightarrow> App \<Rightarrow> world \<Rightarrow> App \<times> world" where
  "shutdown env ctx a w =
     (case binaryManager a of
        None \<Rightarrow> (a, w)
      | Some bm \<Rightarrow>
          (let (bm1, w1) = Cleanup env bm w
           in (a\<lparr>binaryManager := Some bm1\<rparr>, w1)))"

section \<open>Reading the trace\<close>

text \<open>
  The handles of the processes a trace started: one for each successful \<^verbatim>\<open>Start\<close>,
  the command with its process set.
\<close>

fun launchedOf :: "event \<Rightarrow> Cmd list" where
  "launchedOf (EvStart c (Some p)) = [c\<lparr>cmd_Process := Some p\<rparr>]"
| "launchedOf e = []"

definition launched :: "event list \<Rightarrow> Cmd list" where
  "launched tr = concat (map launchedOf tr)"

text \<open>
  The paths a trace looked up in order to resolve an executable: reads of the embedded
  file system and \<^verbatim>\<open>Stat\<close> calls.
\<close>

fun lookupOf :: "event \<Rightarrow> string list" where
  "lookupOf (EvReadFile p ok) = [p]"
| "lookupOf (EvStat p ok) = [p]"
| "lookupOf e = []"

definition lookups :: "event list \<Rightarrow> string list" where
  "lookups tr = concat (map lookupOf tr)"

text \<open>
  The names whose attempt a trace closes: the failure logged by \<^verbatim>\<open>StartAll\<close>, or the
  waiter goroutine that ends a successful \<^verbatim>\<open>startBinary\<close>.
\<close>

fun outcomeOf :: "event \<Rightarrow> string list" where
  "outcomeOf (EvLog (FailedToStart n e)) = [n]"
| "outcomeOf (EvGoWait n p) = [n]"
| "outcomeOf e = []"

definition outcomes :: "event list \<Rightarrow> string list" where
  "outcomes tr = concat (map outcomeOf tr)"

text \<open>The processes a trace signalled, with the result of each \<^verbatim>\<open>Kill\<close>.\<close>

fun killOf :: "event \<Rightarrow> (pid \<times> bool) list" where
  "killOf (EvKill p ok) = [(p, ok)]"
| "killOf e = []"

definition kills :: "event list \<Rightarrow> (pid \<times> bool) list" where
  "kills tr = concat (map killOf tr)"

text \<open>The path \<^verbatim>\<open>startBinary\<close> looks up first for a name.\<close>

definition lookupPath :: "os_env \<Rightarrow> BinaryManager \<Rightarrow> string \<Rightarrow> string" where
  "lookupPath env bm name =
     (if useEmbedded bm then Join env [''bin'', name] else Join env [cacheDir bm, name])"

text \<open>
  The events of one attempt for \<open>name\<close>: they start with the lookup of its path, end
  with its outcome, and hold no other lookup and no other outcome.
\<close>

definition attemptBlock :: "string \<Rightarrow> string \<Rightarrow> event list \<Rightarrow> bool" where
  "attemptBlock path name b =
     (b \<noteq> [] \<and> lookupOf (hd b) = [path] \<and> lookups (tl b) = [] \<and>
      outcomeOf (last b) = [name] \<and> outcomes (butlast b) = [])"

text \<open>
  The names a trace reports as started (\<^verbatim>\<open>%s started successfully (PID: %d)\<close>).
\<close>

fun startedOf :: "event \<Rightarrow> string list" where
  "startedOf (EvLog (StartedSuccessfully n p)) = [n]"
| "startedOf e = []"

definition started :: "event list \<Rightarrow> string list" where
  "started tr = concat (map startedOf tr)"

text \<open>What \<^verbatim>\<open>Cleanup\<close> may do: announce a termination, signal, report a failed signal.\<close>

fun cleanupEvent :: "event \<Rightarrow> bool" where
  "cleanupEvent (EvKill p ok) = True"
| "cleanupEvent (EvLog (Terminating i p)) = True"
| "cleanupEvent (EvLog (FailedToKill i)) = True"
| "cleanupEvent e = False"

text \<open>The process ids of the handles whose \<^verbatim>\<open>cmd.Process\<close> is not nil.\<close>

definition livePids :: "Cmd list \<Rightarrow> pid list" where
  "livePids cs = List.map_filter cmd_Process cs"

text \<open>Calling \<^verbatim>\<open>Cleanup\<close> \<open>n\<close> times in succession.\<close>

definition CleanupTimes :: "nat \<Rightarrow> os_env \<Rightarrow> BinaryManager \<Rightarrow> world \<Rightarrow> BinaryManager \<times> world" where
  "CleanupTimes n env bm w = ((\<lambda>(b, v). Cleanup env b v) ^^ n) (bm, w)"

text \<open>The paths a trace wrote with \<^verbatim>\<open>os.WriteFile\<close>.\<close>

fun writeOf :: "event \<Rightarrow> string list" where
  "writeOf (EvWriteFile p d m ok) = [p]"
| "writeOf e = []"

definition writes :: "event list \<Rightarrow> string list" where
  "writes tr = concat (map writeOf tr)"

text \<open>
  What one attempt for \<open>name\<close> may launch and write: either it starts nothing, or it
  reports \<open>name\<close> as started and starts exactly one process, from \<open>path\<close>; and it
  writes no file other than \<open>path\<close>, at most once.
\<close>

definition launchBlock :: "string \<Rightarrow> string \<Rightarrow> event list \<Rightarrow> bool" where
  "launchBlock path name b =
     (((started b = [] \<and> launched b = []) \<or>
       (started b = [name] \<and> map cmd_Path (launched b) = [path])) \<and>
      (writes b = [] \<or> writes b = [path]))"

section \<open>A concrete system\<close>

text \<open>
  A Unix-like environment in which nothing is refused, used to run the model on
  concrete inputs. \<open>joinSlash\<close> agrees with \<^verbatim>\<open>filepath.Join\<close> on components that are
  already clean.
\<close>

fun joinSlash :: "string list \<Rightarrow> string" where
  "joinSlash [] = []"
| "joinSlash [x] = x"
| "joinSlash (x # y # ys) = x @ ''/'' @ joinSlash (y # ys)"

definition unixEnv :: os_env where
  "unixEnv =
     \<lparr>UserCacheDir = Some ''/home/u/.cache'',
      IsAbs = (\<lambda>p. p \<noteq> [] \<and> hd p = CHR ''/''),
      Abs = (\<lambda>p. Some (''/cwd/'' @ p)),
      Join = joinSlash,
      umask = 18,
      mkdirRefused = (\<lambda>w p. False),
      writeOutcome = (\<lambda>w p. WriteOk),
      statRefused = (\<lambda>w p. False),
      chmodRefused = (\<lambda>w p. False),
      startRefused = (\<lambda>w c. False),
      killRefused = (\<lambda>w p. False),
      NewAPI = Some API\<rparr>"

text \<open>A world with two executables in \<^verbatim>\<open>/opt/bin\<close>, \<^verbatim>\<open>a\<close> and \<^verbatim>\<open>c\<close>, and no \<^verbatim>\<open>b\<close>.\<close>

definition localWorld :: world where
  "localWorld =
     \<lparr>nodes = [''/opt/bin'' \<mapsto> Dir 493, ''/opt/bin/a'' \<mapsto> File [1, 2] 493,
               ''/opt/bin/c'' \<mapsto> File [3] 420],
      procs = Map.empty, nextPid = 100, trace = []\<rparr>"

definition localManager :: "string list \<Rightarrow> BinaryManager" where
  "localManager order =
     \<lparr>useEmbedded = False, binaries = Map.empty, binPath = ''/opt/bin'', processes = [],
      execOrder = order, cacheDir = ''/opt/bin''\<rparr>"

text \<open>
  The end-to-end scenario of the specification: embedded mode, the payload holds
  \<^verbatim>\<open>bin/a\<close> and not \<^verbatim>\<open>bin/b\<close>, and the cache directory is still empty.
\<close>

definition cacheWorld :: world where
  "cacheWorld =
     \<lparr>nodes = [''/home/u/.cache/wachat/bin'' \<mapsto> Dir 493],
      procs = Map.empty, nextPid = 100, trace = []\<rparr>"

definition embeddedManager :: "string list \<Rightarrow> BinaryManager" where
  "embeddedManager order =
     \<lparr>useEmbedded = True, binaries = [''bin/a'' \<mapsto> [7, 8, 9]], binPath = ''./bin'',
      processes = [], execOrder = order, cacheDir = ''/home/u/.cache/wachat/bin''\<rparr>"

text \<open>
  A manager that holds two handles, the second with a nil \<^verbatim>\<open>cmd.Process\<close>, in a world
  where process 100 runs.
\<close>

definition handleOf :: "string \<Rightarrow> pid option \<Rightarrow> Cmd" where
  "handleOf path p =
     \<lparr>cmd_ctx = 7, cmd_Path = path, cmd_Dir = ''/opt/bin'', cmd_Stdout = Some OsStdout,
      cmd_Stderr = Some OsStderr, cmd_Process = p\<rparr>"

definition runningManager :: BinaryManager where
  "runningManager =
     (localManager [''a'', ''c''])
       \<lparr>processes := [handleOf ''/opt/bin/a'' (Some 100), handleOf ''/opt/bin/c'' None]\<rparr>"

definition runningWorld :: world where
  "runningWorld =
     localWorld\<lparr>procs := [100 \<mapsto> \<lparr>proc_cmd = handleOf ''/opt/bin/a'' None, proc_killed = False\<rparr>],
                nextPid := 101\<rparr>"

text \<open>
  An environment in which a process can be killed once: \<^verbatim>\<open>Kill\<close> fails on a process that
  was killed already (\<^verbatim>\<open>os: process already finished\<close>).
\<close>

definition onceEnv :: os_env where
  "onceEnv =
     unixEnv\<lparr>killRefused :=
       (\<lambda>w p. case procs w p of None \<Rightarrow> True | Some pr \<Rightarrow> proc_killed pr)\<rparr>"

section \<open>The events of one attempt\<close>

text \<open>
  The calls to \<^verbatim>\<open>Start\<close> in a trace: the command and what \<^verbatim>\<open>Start\<close> returned.
\<close>

fun startCallOf :: "event \<Rightarrow> (Cmd \<times> pid option) list" where
  "startCallOf (EvStart c r) = [(c, r)]"
| "startCallOf e = []"

definition startCalls :: "event list \<Rightarrow> (Cmd \<times> pid option) list" where
  "startCalls tr = concat (map startCallOf tr)"

text \<open>
  What the operating system answers during one attempt: whether \<^verbatim>\<open>Stat\<close> found the file
  (local mode; in embedded mode the payload decides whether the bytes are there), whether
  the file could be prepared (the \<^verbatim>\<open>WriteFile\<close> of embedded mode, the \<^verbatim>\<open>Chmod\<close> of local
  mode), and what \<^verbatim>\<open>Start\<close> returned.
\<close>

record answers =
  ans_found :: bool
  ans_prepared :: bool
  ans_start :: "pid option"

text \<open>
  The events of a launch: the \<^verbatim>\<open>Start\<close> of the command for \<open>path\<close>, in directory
  \<^verbatim>\<open>cacheDir\<close> with the parent's output streams, and then either the logged
  \<open>LaunchError\<close> or the success line and the waiter.
\<close>

definition launchEvents ::
  "Context \<Rightarrow> BinaryManager \<Rightarrow> string \<Rightarrow> string \<Rightarrow> pid option \<Rightarrow> event list" where
  "launchEvents ctx bm name path res =
     EvStart \<lparr>cmd_ctx = ctx, cmd_Path = path, cmd_Dir = cacheDir bm,
              cmd_Stdout = Some OsStdout, cmd_Stderr = Some OsStderr, cmd_Process = None\<rparr> res
     # (case res of
          None \<Rightarrow> [EvLog (FailedToStart name (LaunchError name))]
        | Some p \<Rightarrow> [EvLog (StartedSuccessfully name p), EvGoWait name p])"

text \<open>
  Whether an attempt gets as far as the launch: in embedded mode the payload holds the
  bytes and the write succeeded, in local mode the file was found (a failed chmod does
  not count).
\<close>

definition resolves :: "os_env \<Rightarrow> BinaryManager \<Rightarrow> string \<Rightarrow> answers \<Rightarrow> bool" where
  "resolves env bm name a =
     (if useEmbedded bm then binaries bm (Join env [''bin'', name]) \<noteq> None \<and> ans_prepared a
      else ans_found a)"

text \<open>
  The complete sequence of events of one pass of the loop of \<^verbatim>\<open>StartAll\<close> for \<open>name\<close>,
  the failure line of \<^verbatim>\<open>StartAll\<close> included, as the specification describes an attempt
  (4.2 and 4.3): resolve, then launch if the name resolved, then report.
\<close>

definition attemptEvents ::
  "os_env \<Rightarrow> Context \<Rightarrow> BinaryManager \<Rightarrow> string \<Rightarrow> answers \<Rightarrow> event list" where
  "attemptEvents env ctx bm name a =
     (let src = Join env [''bin'', name]; path = Join env [cacheDir bm, name]
      in if useEmbedded bm then
           (case binaries bm src of
              None \<Rightarrow>
                [EvReadFile src False, EvLog (FailedToStart name (PayloadNotFoundError name))]
            | Some data \<Rightarrow>
                if ans_prepared a then
                  [EvReadFile src True, EvWriteFile path data perm_0755 True,
                   EvLog (Extracted name path)]
                  @ launchEvents ctx bm name path (ans_start a)
                else
                  [EvReadFile src True, EvWriteFile path data perm_0755 False,
                   EvLog (FailedToStart name (ExtractionError name))])
         else if ans_found a then
           [EvStat path True, EvChmod path perm_0755 (ans_prepared a)]
           @ (if ans_prepared a then [] else [EvLog (WarnChmodFailed name)])
           @ [EvLog (UsingLocalBinary path)]
           @ launchEvents ctx bm name path (ans_start a)
         else
           [EvStat path False, EvLog (FailedToStart name (BinaryNotFoundError name path))])"

text \<open>
  A cache directory that already holds a file \<^verbatim>\<open>a\<close> without execute permission
  (mode \<^verbatim>\<open>0644\<close>).
\<close>

definition staleCacheWorld :: world where
  "staleCacheWorld =
     \<lparr>nodes = [''/home/u/.cache/wachat/bin'' \<mapsto> Dir 493,
               ''/home/u/.cache/wachat/bin/a'' \<mapsto> File [1] 420],
      procs = Map.empty, nextPid = 100, trace = []\<rparr>"

text \<open>
  \<^verbatim>\<open>StartAll\<close> called a first time on a manager without handles, for the order
  \<^verbatim>\<open>["a"]\<close>, and then a second time on the manager and the world the first call left.
\<close>

definition firstStart :: "error option \<times> BinaryManager \<times> world" where
  "firstStart = StartAll unixEnv 7 (localManager [''a'']) localWorld"

definition secondStart :: "error option \<times> BinaryManager \<times> world" where
  "secondStart = StartAll unixEnv 7 (fst (snd firstStart)) (snd (snd firstStart))"

section \<open>Facts about the library calls\<close>

lemma trace_emit [simp]: "trace (emit e w) = trace w @ [e]"
  and nodes_emit [simp]: "nodes (emit e w) = nodes w"
  and procs_emit [simp]: "procs (emit e w) = procs w"
  and nextPid_emit [simp]: "nextPid (emit e w) = nextPid w"
  by (simp_all add: emit_def)

lemma trace_logf [simp]: "trace (logf m w) = trace w @ [EvLog m]"
  and nodes_logf [simp]: "nodes (logf m w) = nodes w"
  and procs_logf [simp]: "procs (logf m w) = procs w"
  and nextPid_logf [simp]: "nextPid (logf m w) = nextPid w"
  by (simp_all add: logf_def)

lemma launched_simps [simp]:
  "launched [] = []"
  "launched (e # tr) = launchedOf e @ launched tr"
  "launched (tr @ tr') = launched tr @ launched tr'"
  by (simp_all add: launched_def)

lemma lookups_simps [simp]:
  "lookups [] = []"
  "lookups (e # tr) = lookupOf e @ lookups tr"
  "lookups (tr @ tr') = lookups tr @ lookups tr'"
  by (simp_all add: lookups_def)

lemma outcomes_simps [simp]:
  "outcomes [] = []"
  "outcomes (e # tr) = outcomeOf e @ outcomes tr"
  "outcomes (tr @ tr') = outcomes tr @ outcomes tr'"
  by (simp_all add: outcomes_def)

lemma started_simps [simp]:
  "started [] = []"
  "started (e # tr) = startedOf e @ started tr"
  "started (tr @ tr') = started tr @ started tr'"
  by (simp_all add: started_def)

lemma writes_simps [simp]:
  "writes [] = []"
  "writes (e # tr) = writeOf e @ writes tr"
  "writes (tr @ tr') = writes tr @ writes tr'"
  by (simp_all add: writes_def)

lemma kills_simps [simp]:
  "kills [] = []"
  "kills (e # tr) = killOf e @ kills tr"
  "kills (tr @ tr') = kills tr @ kills tr'"
  by (simp_all add: kills_def)

lemma since_append: "trace w' = trace w @ d \<Longrightarrow> since w w' = d"
  by (simp add: since_def)

lemma since_same [simp]: "since w w = []"
  by (simp add: since_def)

lemma fs_ReadFile_eq:
  "fs_ReadFile fsys path w = (fsys path, emit (EvReadFile path (fsys path \<noteq> None)) w)"
  by (simp add: fs_ReadFile_def split: option.splits)

lemma os_WriteFile_trace:
  "os_WriteFile env name data perm w = (ok, w1) \<Longrightarrow>
     trace w1 = trace w @ [EvWriteFile name data perm ok] \<and> procs w1 = procs w \<and>
     nextPid w1 = nextPid w"
  by (auto simp: os_WriteFile_def Let_def split: option.splits node.splits write_outcome.splits)

lemma os_WriteFile_ok:
  "os_WriteFile env name data perm w = (True, w1) \<Longrightarrow> \<exists>m. nodes w1 name = Some (File data m)"
  by (auto simp: os_WriteFile_def Let_def split: option.splits node.splits write_outcome.splits)

lemma os_Stat_eq:
  "os_Stat env name w =
     (nodes w name \<noteq> None \<and> \<not> statRefused env w name,
      emit (EvStat name (nodes w name \<noteq> None \<and> \<not> statRefused env w name)) w)"
  by (simp add: os_Stat_def Let_def)

lemma os_Chmod_trace:
  "os_Chmod env name mode w = (ok, w1) \<Longrightarrow>
     trace w1 = trace w @ [EvChmod name mode ok] \<and> procs w1 = procs w \<and> nextPid w1 = nextPid w"
  by (auto simp: os_Chmod_def split: option.splits if_splits)

lemma cmd_Start_trace:
  "cmd_Start env cmd w = (r, w1) \<Longrightarrow> trace w1 = trace w @ [EvStart cmd r] \<and> nodes w1 = nodes w"
  by (auto simp: cmd_Start_def Let_def split: option.splits node.splits if_splits)

lemma cmd_Start_Some:
  "cmd_Start env cmd w = (Some p, w1) \<Longrightarrow>
     \<exists>c m. nodes w (cmd_Path cmd) = Some (File c m) \<and> executable m"
  by (auto simp: cmd_Start_def Let_def split: option.splits node.splits if_splits)

lemma cmd_Start_None:
  "cmd_Start env cmd w = (None, w1) \<Longrightarrow> procs w1 = procs w \<and> nextPid w1 = nextPid w"
  by (auto simp: cmd_Start_def Let_def split: option.splits node.splits if_splits)

lemma Process_Kill_trace:
  "Process_Kill env p w = (ok, w1) \<Longrightarrow> trace w1 = trace w @ [EvKill p ok] \<and> nodes w1 = nodes w"
  by (auto simp: Process_Kill_def split: option.splits if_splits)

section \<open>One attempt\<close>

lemma resolveEmbedded_trace:
  assumes "resolveEmbedded env name bm w = (r, w1)"
  shows "\<exists>ok d. trace w1 = trace w @ EvReadFile (Join env [''bin'', name]) ok # d \<and>
           lookups d = [] \<and> launched d = [] \<and> outcomes d = [] \<and> started d = [] \<and>
           (writes d = [] \<or> writes d = [Join env [cacheDir bm, name]]) \<and>
           (\<forall>path. r = Inr path \<longrightarrow> path = Join env [cacheDir bm, name])"
  using assms
  by (auto simp: resolveEmbedded_def fs_ReadFile_eq Let_def
           split: option.splits prod.splits if_splits dest!: os_WriteFile_trace)

lemma resolveLocal_trace:
  assumes "resolveLocal env name bm w = (r, w1)"
  shows "\<exists>ok d. trace w1 = trace w @ EvStat (Join env [cacheDir bm, name]) ok # d \<and>
           lookups d = [] \<and> launched d = [] \<and> outcomes d = [] \<and> started d = [] \<and>
           writes d = [] \<and>
           (\<forall>path. r = Inr path \<longrightarrow> path = Join env [cacheDir bm, name])"
  using assms
  by (auto simp: resolveLocal_def os_Stat_eq Let_def
           split: option.splits prod.splits if_splits dest!: os_Chmod_trace)

lemma launch_trace:
  assumes "launch env ctx name path bm w = (r, bm1, w1)"
  shows "\<exists>d. trace w1 = trace w @ d \<and> lookups d = [] \<and> writes d = [] \<and>
           bm1 = bm\<lparr>processes := processes bm @ launched d\<rparr> \<and>
           (case r of
              None \<Rightarrow> d \<noteq> [] \<and> outcomeOf (last d) = [name] \<and> outcomes (butlast d) = [] \<and>
                        started d = [name] \<and> map cmd_Path (launched d) = [path]
            | Some e \<Rightarrow> e = LaunchError name \<and> outcomes d = [] \<and> launched d = [] \<and>
                        started d = [])"
  using assms
  by (auto simp: launch_def Let_def CommandContext_def
           split: option.splits prod.splits dest!: cmd_Start_trace)

lemma lookupPath_processes [simp]:
  "lookupPath env (bm\<lparr>processes := ps\<rparr>) name = lookupPath env bm name"
  by (simp add: lookupPath_def)

lemma startBinary_trace:
  assumes "startBinary env ctx name bm w = (r, bm1, w1)"
  shows "\<exists>d. trace w1 = trace w @ d \<and> d \<noteq> [] \<and> lookupOf (hd d) = [lookupPath env bm name] \<and>
           lookups (tl d) = [] \<and> bm1 = bm\<lparr>processes := processes bm @ launched d\<rparr> \<and>
           (writes d = [] \<or> writes d = [Join env [cacheDir bm, name]]) \<and>
           (case r of
              None \<Rightarrow> outcomeOf (last d) = [name] \<and> outcomes (butlast d) = [] \<and>
                        started d = [name] \<and>
                        map cmd_Path (launched d) = [Join env [cacheDir bm, name]]
            | Some e \<Rightarrow> outcomes d = [] \<and> launched d = [] \<and> started d = [])"
proof -
  obtain rr w0 where res:
    "(if useEmbedded bm then resolveEmbedded env name bm w else resolveLocal env name bm w)
       = (rr, w0)"
    by (cases "if useEmbedded bm then resolveEmbedded env name bm w
               else resolveLocal env name bm w")
  then obtain e0 d0 where d0: "trace w0 = trace w @ e0 # d0"
      "lookupOf e0 = [lookupPath env bm name]"
      "lookups d0 = []" "launched d0 = []" "outcomes d0 = []" "started d0 = []"
      "writes d0 = [] \<or> writes d0 = [Join env [cacheDir bm, name]]"
      "\<forall>path. rr = Inr path \<longrightarrow> path = Join env [cacheDir bm, name]"
    using resolveEmbedded_trace [of env name bm w rr w0] resolveLocal_trace [of env name bm w rr w0]
    by (auto simp: lookupPath_def split: if_splits)
  have e0: "launchedOf e0 = []" "outcomeOf e0 = []" "startedOf e0 = []" "writeOf e0 = []"
    using d0(2) by (cases e0; simp)+
  show ?thesis
  proof (cases rr)
    case (Inl err)
    with assms res have "r = Some err" "bm1 = bm" "w1 = w0"
      by (simp_all add: startBinary_def)
    with d0 e0 show ?thesis
      by (intro exI [of _ "e0 # d0"]) simp
  next
    case (Inr path)
    with assms res have "launch env ctx name path bm w0 = (r, bm1, w1)"
      by (simp add: startBinary_def)
    from launch_trace [OF this] obtain d1 where d1: "trace w1 = trace w0 @ d1" "lookups d1 = []"
      "writes d1 = []" "bm1 = bm\<lparr>processes := processes bm @ launched d1\<rparr>"
      "case r of
         None \<Rightarrow> d1 \<noteq> [] \<and> outcomeOf (last d1) = [name] \<and> outcomes (butlast d1) = [] \<and>
                   started d1 = [name] \<and> map cmd_Path (launched d1) = [path]
       | Some e \<Rightarrow> e = LaunchError name \<and> outcomes d1 = [] \<and> launched d1 = [] \<and> started d1 = []"
      by blast
    from Inr d0(8) have path: "path = Join env [cacheDir bm, name]"
      by simp
    show ?thesis
      using d0(1-7) d1 e0 path
      by (intro exI [of _ "e0 # d0 @ d1"]) (auto simp: butlast_append split: option.splits)
  qed
qed

section \<open>The loop of StartAll\<close>

lemma startLoop_trace:
  assumes "startLoop env ctx names c bm w = (c', bm', w')"
  shows "\<exists>blocks. trace w' = trace w @ concat blocks \<and>
           list_all2 (\<lambda>n b. attemptBlock (lookupPath env bm n) n b) names blocks \<and>
           list_all2 (\<lambda>n b. launchBlock (Join env [cacheDir bm, n]) n b) names blocks \<and>
           bm' = bm\<lparr>processes := processes bm @ launched (concat blocks)\<rparr> \<and>
           c' = c + length (launched (concat blocks))"
  using assms
proof (induction names arbitrary: c bm w)
  case Nil
  then show ?case by simp
next
  case (Cons n ns)
  obtain r bm1 w1 where sb: "startBinary env ctx n bm w = (r, bm1, w1)"
    by (cases "startBinary env ctx n bm w")
  from startBinary_trace [OF sb] obtain d where d: "trace w1 = trace w @ d" "d \<noteq> []"
    "lookupOf (hd d) = [lookupPath env bm n]" "lookups (tl d) = []"
    "bm1 = bm\<lparr>processes := processes bm @ launched d\<rparr>"
    "writes d = [] \<or> writes d = [Join env [cacheDir bm, n]]"
    "case r of
       None \<Rightarrow> outcomeOf (last d) = [n] \<and> outcomes (butlast d) = [] \<and> started d = [n] \<and>
                 map cmd_Path (launched d) = [Join env [cacheDir bm, n]]
     | Some e \<Rightarrow> outcomes d = [] \<and> launched d = [] \<and> started d = []"
    by blast
  have same: "lookupPath env bm1 = lookupPath env bm" "cacheDir bm1 = cacheDir bm"
    using d(5) by (simp_all add: fun_eq_iff)
  show ?case
  proof (cases r)
    case None
    with Cons.prems sb have "startLoop env ctx ns (c + 1) bm1 w1 = (c', bm', w')"
      by simp
    from Cons.IH [OF this] same obtain blocks where b: "trace w' = trace w1 @ concat blocks"
      "list_all2 (\<lambda>n b. attemptBlock (lookupPath env bm n) n b) ns blocks"
      "list_all2 (\<lambda>n b. launchBlock (Join env [cacheDir bm, n]) n b) ns blocks"
      "bm' = bm1\<lparr>processes := processes bm1 @ launched (concat blocks)\<rparr>"
      "c' = c + 1 + length (launched (concat blocks))"
      by auto
    have "attemptBlock (lookupPath env bm n) n d" "launchBlock (Join env [cacheDir bm, n]) n d"
      "length (launched d) = 1"
      using d None by (auto simp: attemptBlock_def launchBlock_def dest: arg_cong [where f = length])
    with b d(1,5) show ?thesis
      by (intro exI [of _ "d # blocks"]) simp
  next
    case (Some err)
    let ?d = "d @ [EvLog (FailedToStart n err)]"
    from Some Cons.prems sb
    have "startLoop env ctx ns c bm1 (logf (FailedToStart n err) w1) = (c', bm', w')"
      by simp
    from Cons.IH [OF this] same obtain blocks where b:
      "trace w' = trace (logf (FailedToStart n err) w1) @ concat blocks"
      "list_all2 (\<lambda>n b. attemptBlock (lookupPath env bm n) n b) ns blocks"
      "list_all2 (\<lambda>n b. launchBlock (Join env [cacheDir bm, n]) n b) ns blocks"
      "bm' = bm1\<lparr>processes := processes bm1 @ launched (concat blocks)\<rparr>"
      "c' = c + length (launched (concat blocks))"
      by auto
    have "attemptBlock (lookupPath env bm n) n ?d" "launchBlock (Join env [cacheDir bm, n]) n ?d"
      "launched ?d = []"
      using d Some by (cases d; auto simp: attemptBlock_def launchBlock_def)+
    with b d(1,5) show ?thesis
      by (intro exI [of _ "?d # blocks"]) simp
  qed
qed

lemma attemptBlock_lookups: "attemptBlock path n b \<Longrightarrow> lookups b = [path]"
  by (cases b) (simp_all add: attemptBlock_def)

lemma attemptBlock_outcomes: "attemptBlock path n b \<Longrightarrow> outcomes b = [n]"
proof -
  assume a: "attemptBlock path n b"
  then have "b = butlast b @ [last b]"
    by (simp add: attemptBlock_def)
  then have "outcomes b = outcomes (butlast b) @ outcomeOf (last b)"
    by (metis append_Nil2 outcomes_simps(1,2,3))
  with a show ?thesis
    by (simp add: attemptBlock_def)
qed

lemma blocks_lookups:
  "list_all2 (\<lambda>n b. attemptBlock (f n) n b) names blocks \<Longrightarrow> lookups (concat blocks) = map f names"
  by (induction names blocks rule: list_all2_induct) (simp_all add: attemptBlock_lookups)

lemma blocks_outcomes:
  "list_all2 (\<lambda>n b. attemptBlock (f n) n b) names blocks \<Longrightarrow> outcomes (concat blocks) = names"
  by (induction names blocks rule: list_all2_induct) (simp_all add: attemptBlock_outcomes)

lemma blocks_started:
  "list_all2 (\<lambda>n b. launchBlock (f n) n b) names blocks \<Longrightarrow>
     subseq (started (concat blocks)) names \<and>
     map cmd_Path (launched (concat blocks)) = map f (started (concat blocks)) \<and>
     length (launched (concat blocks)) = length (started (concat blocks))"
proof (induction names blocks rule: list_all2_induct)
  case Nil
  then show ?case by simp
next
  case (Cons n ns b bs)
  from Cons(1) consider "started b = []" "launched b = []"
    | "started b = [n]" "map cmd_Path (launched b) = [f n]"
    by (auto simp: launchBlock_def)
  then show ?case
  proof cases
    case 1
    with Cons.IH show ?thesis by auto
  next
    case 2
    moreover from 2 have "length (launched b) = 1"
      by (auto dest: arg_cong [where f = length])
    ultimately show ?thesis using Cons.IH by simp
  qed
qed

lemma blocks_writes:
  "list_all2 (\<lambda>n b. launchBlock (f n) n b) names blocks \<Longrightarrow>
     subseq (writes (concat blocks)) (map f names)"
proof (induction names blocks rule: list_all2_induct)
  case Nil
  then show ?case by simp
next
  case (Cons n ns b bs)
  from Cons(1) have "writes b = [] \<or> writes b = [f n]"
    by (simp add: launchBlock_def)
  with Cons.IH show ?case by auto
qed

lemma StartAll_trace:
  assumes "StartAll env ctx bm w = (r, bm', w')"
  shows "\<exists>blocks rest. since w w' = concat blocks @ rest \<and>
           (rest = [] \<or> (\<exists>k. rest = [EvLog (StartedCount k (length (execOrder bm)))])) \<and>
           list_all2 (\<lambda>n b. attemptBlock (lookupPath env bm n) n b) (execOrder bm) blocks \<and>
           list_all2 (\<lambda>n b. launchBlock (Join env [cacheDir bm, n]) n b) (execOrder bm) blocks \<and>
           bm' = bm\<lparr>processes := processes bm @ launched (concat blocks)\<rparr> \<and>
           r = (if launched (concat blocks) = [] then Some NoBinariesStartedError else None)"
proof -
  obtain c bm1 w1 where loop: "startLoop env ctx (execOrder bm) 0 bm w = (c, bm1, w1)"
    by (cases "startLoop env ctx (execOrder bm) 0 bm w")
  from startLoop_trace [OF this] obtain blocks where b: "trace w1 = trace w @ concat blocks"
    "list_all2 (\<lambda>n b. attemptBlock (lookupPath env bm n) n b) (execOrder bm) blocks"
    "list_all2 (\<lambda>n b. launchBlock (Join env [cacheDir bm, n]) n b) (execOrder bm) blocks"
    "bm1 = bm\<lparr>processes := processes bm @ launched (concat blocks)\<rparr>"
    "c = 0 + length (launched (concat blocks))"
    by blast
  show ?thesis
  proof (cases "c = 0")
    case True
    with assms loop have "r = Some NoBinariesStartedError" "bm' = bm1" "w' = w1"
      by (simp_all add: StartAll_def)
    with b True show ?thesis
      by (intro exI [of _ blocks] exI [of _ "[]"]) (simp add: since_append)
  next
    case False
    with assms loop have "r = None" "bm' = bm1"
      "w' = logf (StartedCount c (length (execOrder bm))) w1"
      by (simp_all add: StartAll_def)
    with b False show ?thesis
      by (intro exI [of _ blocks] exI [of _ "[EvLog (StartedCount c (length (execOrder bm)))]"])
         (simp add: since_append)
  qed
qed


section \<open>The exact events of the loop\<close>

lemma startCalls_simps [simp]:
  "startCalls [] = []"
  "startCalls (e # tr) = startCallOf e @ startCalls tr"
  "startCalls (tr @ tr') = startCalls tr @ startCalls tr'"
  by (simp_all add: startCalls_def)

lemma launchEvents_processes [simp]:
  "launchEvents ctx (bm\<lparr>processes := ps\<rparr>) name path res = launchEvents ctx bm name path res"
  by (simp add: launchEvents_def)

lemma attemptEvents_processes [simp]:
  "attemptEvents env ctx (bm\<lparr>processes := ps\<rparr>) name a = attemptEvents env ctx bm name a"
  by (simp add: attemptEvents_def Let_def split: option.splits)

lemma resolves_processes [simp]:
  "resolves env (bm\<lparr>processes := ps\<rparr>) name a = resolves env bm name a"
  by (simp add: resolves_def)

lemma launch_events:
  assumes "launch env ctx name path bm w = (r, bm', w')"
  shows "\<exists>res. trace (case r of None \<Rightarrow> w' | Some e \<Rightarrow> logf (FailedToStart name e) w')
           = trace w @ launchEvents ctx bm name path res"
  using assms
  by (auto simp: launch_def launchEvents_def Let_def CommandContext_def
           split: option.splits prod.splits dest!: cmd_Start_trace)

lemma startBinary_events:
  assumes "startBinary env ctx name bm w = (r, bm', w')"
  shows "\<exists>a. trace (case r of None \<Rightarrow> w' | Some e \<Rightarrow> logf (FailedToStart name e) w')
           = trace w @ attemptEvents env ctx bm name a"
proof (cases "useEmbedded bm")
  case True
  let ?src = "Join env [''bin'', name]" and ?dst = "Join env [cacheDir bm, name]"
  show ?thesis
  proof (cases "binaries bm ?src")
    case None
    with True assms show ?thesis
      by (auto simp: startBinary_def resolveEmbedded_def fs_ReadFile_eq attemptEvents_def Let_def)
  next
    case (Some data)
    let ?w1 = "emit (EvReadFile ?src True) w"
    obtain ok w2 where wr: "os_WriteFile env ?dst data perm_0755 ?w1 = (ok, w2)"
      by (cases "os_WriteFile env ?dst data perm_0755 ?w1")
    from os_WriteFile_trace [OF wr]
    have t2: "trace w2 = trace w @ [EvReadFile ?src True, EvWriteFile ?dst data perm_0755 ok]"
      by simp
    show ?thesis
    proof (cases ok)
      case False
      with True assms Some wr have "r = Some (ExtractionError name)" "w' = w2"
        by (simp_all add: startBinary_def resolveEmbedded_def fs_ReadFile_eq Let_def)
      with True Some False t2 show ?thesis
        by (intro exI [of _ "\<lparr>ans_found = True, ans_prepared = False, ans_start = None\<rparr>"])
           (simp add: attemptEvents_def Let_def)
    next
      case ok: True
      let ?w3 = "logf (Extracted name ?dst) w2"
      from True assms Some wr ok have "launch env ctx name ?dst bm ?w3 = (r, bm', w')"
        by (simp add: startBinary_def resolveEmbedded_def fs_ReadFile_eq Let_def)
      from launch_events [OF this] obtain res where
        "trace (case r of None \<Rightarrow> w' | Some e \<Rightarrow> logf (FailedToStart name e) w')
           = trace ?w3 @ launchEvents ctx bm name ?dst res"
        by blast
      with True Some ok t2 show ?thesis
        by (intro exI [of _ "\<lparr>ans_found = True, ans_prepared = True, ans_start = res\<rparr>"])
           (simp add: attemptEvents_def Let_def)
    qed
  qed
next
  case False
  let ?p = "Join env [cacheDir bm, name]"
  let ?found = "nodes w ?p \<noteq> None \<and> \<not> statRefused env w ?p"
  show ?thesis
  proof (cases ?found)
    case nf: False
    with False assms have "r = Some (BinaryNotFoundError name ?p)" "w' = emit (EvStat ?p False) w"
      by (auto simp: startBinary_def resolveLocal_def os_Stat_eq Let_def)
    with False show ?thesis
      by (intro exI [of _ "\<lparr>ans_found = False, ans_prepared = False, ans_start = None\<rparr>"])
         (simp add: attemptEvents_def Let_def)
  next
    case f: True
    let ?w1 = "emit (EvStat ?p True) w"
    obtain ok w2 where cm: "os_Chmod env ?p perm_0755 ?w1 = (ok, w2)"
      by (cases "os_Chmod env ?p perm_0755 ?w1")
    let ?w3 = "if \<not> ok then logf (WarnChmodFailed name) w2 else w2"
    let ?w4 = "logf (UsingLocalBinary ?p) ?w3"
    from False assms f cm have "launch env ctx name ?p bm ?w4 = (r, bm', w')"
      by (auto simp: startBinary_def resolveLocal_def os_Stat_eq Let_def)
    from launch_events [OF this] obtain res where l:
      "trace (case r of None \<Rightarrow> w' | Some e \<Rightarrow> logf (FailedToStart name e) w')
         = trace ?w4 @ launchEvents ctx bm name ?p res"
      by blast
    from os_Chmod_trace [OF cm]
    have "trace ?w4 = trace w @ [EvStat ?p True, EvChmod ?p perm_0755 ok]
        @ (if ok then [] else [EvLog (WarnChmodFailed name)]) @ [EvLog (UsingLocalBinary ?p)]"
      by simp
    with l False show ?thesis
      by (intro exI [of _ "\<lparr>ans_found = True, ans_prepared = ok, ans_start = res\<rparr>"])
         (simp add: attemptEvents_def Let_def)
  qed
qed

lemma startLoop_events:
  assumes "startLoop env ctx names c bm w = (c', bm', w')"
  shows "\<exists>as. length as = length names \<and>
           trace w' = trace w @ concat (map2 (attemptEvents env ctx bm) names as)"
  using assms
proof (induction names arbitrary: c bm w)
  case Nil
  then show ?case by simp
next
  case (Cons n ns)
  obtain r bm1 w1 where sb: "startBinary env ctx n bm w = (r, bm1, w1)"
    by (cases "startBinary env ctx n bm w")
  let ?w2 = "case r of None \<Rightarrow> w1 | Some e \<Rightarrow> logf (FailedToStart n e) w1"
  from startBinary_events [OF sb] obtain a where a:
    "trace ?w2 = trace w @ attemptEvents env ctx bm n a"
    by blast
  from startBinary_trace [OF sb] obtain ps where bm1: "bm1 = bm\<lparr>processes := ps\<rparr>"
    by blast
  from Cons.prems sb obtain c1 where "startLoop env ctx ns c1 bm1 ?w2 = (c', bm', w')"
    by (cases r) auto
  from Cons.IH [OF this] bm1 obtain as where as: "length as = length ns"
    "trace w' = trace ?w2 @ concat (map2 (attemptEvents env ctx bm) ns as)"
    by auto
  with a show ?case
    by (intro exI [of _ "a # as"]) simp
qed

lemma attemptEvents_startCalls:
  "map (\<lambda>(c, r). cmd_Path c) (startCalls (attemptEvents env ctx bm n a))
     = (if resolves env bm n a then [Join env [cacheDir bm, n]] else [])"
  by (simp add: attemptEvents_def launchEvents_def resolves_def Let_def
           split: option.splits)

lemma map2_startCalls:
  "length names = length as \<Longrightarrow>
     map (\<lambda>(c, r). cmd_Path c) (startCalls (concat (map2 (attemptEvents env ctx bm) names as)))
       = map (\<lambda>(n, a). Join env [cacheDir bm, n])
           (filter (\<lambda>(n, a). resolves env bm n a) (zip names as))"
  by (induction names as rule: list_induct2) (simp_all add: attemptEvents_startCalls)

lemma StartAll_events:
  assumes "StartAll env ctx bm w = (r, bm', w')"
  shows "\<exists>as rest. length as = length (execOrder bm) \<and>
           since w w' = concat (map2 (attemptEvents env ctx bm) (execOrder bm) as) @ rest \<and>
           (rest = [] \<or> (\<exists>k. rest = [EvLog (StartedCount k (length (execOrder bm)))]))"
proof -
  obtain c bm1 w1 where loop: "startLoop env ctx (execOrder bm) 0 bm w = (c, bm1, w1)"
    by (cases "startLoop env ctx (execOrder bm) 0 bm w")
  from startLoop_events [OF this] obtain as where as: "length as = length (execOrder bm)"
    "trace w1 = trace w @ concat (map2 (attemptEvents env ctx bm) (execOrder bm) as)"
    by blast
  show ?thesis
  proof (cases "c = 0")
    case True
    with assms loop have "w' = w1"
      by (simp add: StartAll_def)
    with as show ?thesis
      by (intro exI [of _ as] exI [of _ "[]"]) (simp add: since_append)
  next
    case False
    with assms loop have "w' = logf (StartedCount c (length (execOrder bm))) w1"
      by (simp add: StartAll_def)
    with as show ?thesis
      by (intro exI [of _ as] exI [of _ "[EvLog (StartedCount c (length (execOrder bm)))]"])
         (simp add: since_append)
  qed
qed

lemmas run_defs = StartAll_def startBinary_def resolveLocal_def resolveEmbedded_def launch_def
  os_Stat_def os_Chmod_def os_WriteFile_def os_MkdirAll_def fs_ReadFile_def cmd_Start_def
  Process_Kill_def CommandContext_def emit_def logf_def executable_def perm_0755_def
  chmod_node_def unixEnv_def localWorld_def localManager_def cacheWorld_def embeddedManager_def
  Let_def Cleanup_def GetProcessCount_def since_def NewBinaryManager_def
  NewBinaryManagerFromConfig_def handleOf_def runningManager_def runningWorld_def

section \<open>StartAll\<close>

text \<open>
  Claim C1. For every manager, and so for every \<open>execOrder\<close>, \<open>StartAll\<close> returns
  \<open>NoBinariesStartedError\<close> exactly when none of its launch attempts succeeded, that is
  when the events of the call hold no successful \<^verbatim>\<open>Start\<close>; as soon as one launch
  succeeded it returns nil, however many attempts failed.
\<close>

theorem StartAll_error_iff_none_launched:
  assumes "StartAll env ctx bm w = (r, bm', w')"
  shows "(r = Some NoBinariesStartedError \<longleftrightarrow> length (launched (since w w')) = 0) \<and>
         (0 < length (launched (since w w')) \<longrightarrow> r = None)"
proof -
  from StartAll_trace [OF assms] obtain blocks rest where
    "since w w' = concat blocks @ rest"
    "rest = [] \<or> (\<exists>k. rest = [EvLog (StartedCount k (length (execOrder bm)))])"
    "r = (if launched (concat blocks) = [] then Some NoBinariesStartedError else None)"
    by blast
  then show ?thesis by auto
qed

theorem StartAll_error_iff_none_launched_witness:
  "fst (StartAll unixEnv 7 (localManager [''a'', ''b'', ''c'']) localWorld) = None \<and>
   length (launched (since localWorld
     (snd (snd (StartAll unixEnv 7 (localManager [''a'', ''b'', ''c'']) localWorld))))) = 2 \<and>
   fst (StartAll unixEnv 7 (localManager [''b'']) localWorld) = Some NoBinariesStartedError \<and>
   length (launched (since localWorld
     (snd (snd (StartAll unixEnv 7 (localManager [''b'']) localWorld))))) = 0"
proof -
  let ?X = "StartAll unixEnv 7 (localManager [''a'', ''b'', ''c'']) localWorld"
  let ?Y = "StartAll unixEnv 7 (localManager [''b'']) localWorld"
  have x: "?X = (fst ?X, fst (snd ?X), snd (snd ?X))" and y: "?Y = (fst ?Y, fst (snd ?Y), snd (snd ?Y))"
    by simp_all
  have "fst ?X = None" "fst ?Y = Some NoBinariesStartedError"
       "length (launched (since localWorld (snd (snd ?X)))) = 2"
    by (simp_all add: run_defs)
  with StartAll_error_iff_none_launched [OF x] StartAll_error_iff_none_launched [OF y]
  show ?thesis by simp
qed


lemma NewBinaryManager_fresh:
  assumes "NewBinaryManager env useEmb bins bp order w = (Inr bm, w1)"
  shows "processes bm = [] \<and> execOrder bm = order \<and> useEmbedded bm = useEmb \<and> binaries bm = bins"
  using assms
  by (auto simp: NewBinaryManager_def Let_def split: if_splits option.splits prod.splits)

lemma StartAll_handles:
  assumes "StartAll env ctx bm w = (r, bm', w')"
  shows "processes bm' = processes bm @ launched (since w w') \<and>
         length (launched (since w w')) = length (started (since w w')) \<and>
         subseq (started (since w w')) (execOrder bm) \<and>
         map cmd_Path (launched (since w w'))
           = map (\<lambda>n. Join env [cacheDir bm, n]) (started (since w w')) \<and>
         subseq (writes (since w w')) (map (\<lambda>n. Join env [cacheDir bm, n]) (execOrder bm))"
proof -
  from StartAll_trace [OF assms] obtain blocks rest where b:
    "since w w' = concat blocks @ rest"
    "rest = [] \<or> (\<exists>k. rest = [EvLog (StartedCount k (length (execOrder bm)))])"
    "list_all2 (\<lambda>n b. launchBlock (Join env [cacheDir bm, n]) n b) (execOrder bm) blocks"
    "bm' = bm\<lparr>processes := processes bm @ launched (concat blocks)\<rparr>"
    by blast
  from b(1,2) have same: "launched (since w w') = launched (concat blocks)"
    "started (since w w') = started (concat blocks)" "writes (since w w') = writes (concat blocks)"
    by auto
  from blocks_started [OF b(3)] blocks_writes [OF b(3)] b(4) show ?thesis
    unfolding same by simp
qed

text \<open>
  Claim C2 says that after \<open>StartAll\<close> the value of \<open>GetProcessCount\<close> is the number of
  names whose launch succeeded, and at most the length of \<open>execOrder\<close>. \<open>StartAll\<close>
  appends to the handles the manager already holds and never resets them: called a
  second time for the order \<^verbatim>\<open>["a"]\<close>, it starts one name, and \<open>GetProcessCount\<close> is 2,
  more than the one name started and more than the length of \<open>execOrder\<close>.
\<close>

theorem second_StartAll_counterexample:
  "fst secondStart = None \<and>
   execOrder (fst (snd secondStart)) = [''a''] \<and>
   started (since (snd (snd firstStart)) (snd (snd secondStart))) = [''a''] \<and>
   GetProcessCount (fst (snd secondStart)) = 2"
  by (simp add: firstStart_def secondStart_def run_defs)

text \<open>
  Claim C2, amended. A call of \<open>StartAll\<close> appends exactly one handle for each name it
  reports as started, so \<open>GetProcessCount\<close> after the call is its value before the call
  plus the number of names started in the call; these names are a subsequence of
  \<open>execOrder\<close>, so their number is between 0 and the length of \<open>execOrder\<close>. A manager as
  \<open>NewBinaryManager\<close> returns it holds no handle, and on a manager that holds no handle
  the count after the call is the number of names started, between 0 and the length of
  \<open>execOrder\<close>.
\<close>

theorem GetProcessCount_grows_by_started:
  "(NewBinaryManager env0 useEmb bins bp order w0 = (Inr bm0, w1) \<longrightarrow> GetProcessCount bm0 = 0) \<and>
   (StartAll env ctx bm w = (r, bm', w') \<longrightarrow>
      processes bm' = processes bm @ launched (since w w') \<and>
      length (launched (since w w')) = length (started (since w w')) \<and>
      subseq (started (since w w')) (execOrder bm) \<and>
      GetProcessCount bm' = GetProcessCount bm + length (started (since w w')) \<and>
      length (started (since w w')) \<le> length (execOrder bm) \<and>
      (GetProcessCount bm = 0 \<longrightarrow>
         GetProcessCount bm' = length (started (since w w')) \<and>
         0 \<le> int (GetProcessCount bm') \<and> GetProcessCount bm' \<le> length (execOrder bm)))"
proof -
  have 1: "GetProcessCount bm0 = 0"
    if "NewBinaryManager env0 useEmb bins bp order w0 = (Inr bm0, w1)"
    using NewBinaryManager_fresh [OF that] by (simp add: GetProcessCount_def)
  have 2: "processes bm' = processes bm @ launched (since w w') \<and>
      length (launched (since w w')) = length (started (since w w')) \<and>
      subseq (started (since w w')) (execOrder bm) \<and>
      GetProcessCount bm' = GetProcessCount bm + length (started (since w w')) \<and>
      length (started (since w w')) \<le> length (execOrder bm)"
    if "StartAll env ctx bm w = (r, bm', w')"
    using StartAll_handles [OF that] by (auto simp: GetProcessCount_def dest: list_emb_length)
  from 1 2 show ?thesis by simp
qed

theorem GetProcessCount_grows_by_started_witness:
  "fst (NewBinaryManager unixEnv False Map.empty ''/opt/bin'' [''a'', ''b'', ''c''] localWorld)
     = Inr (localManager [''a'', ''b'', ''c'']) \<and>
   GetProcessCount (localManager [''a'', ''b'', ''c'']) = 0 \<and>
   started (since localWorld
     (snd (snd (StartAll unixEnv 7 (localManager [''a'', ''b'', ''c'']) localWorld)))) = [''a'', ''c''] \<and>
   GetProcessCount (fst (snd (StartAll unixEnv 7 (localManager [''a'', ''b'', ''c'']) localWorld))) = 2 \<and>
   GetProcessCount (fst (snd firstStart)) = 1 \<and>
   GetProcessCount (fst (snd secondStart))
     = 1 + length (started (since (snd (snd firstStart)) (snd (snd secondStart))))"
proof -
  let ?N = "NewBinaryManager unixEnv False Map.empty ''/opt/bin'' [''a'', ''b'', ''c''] localWorld"
  let ?X = "StartAll unixEnv 7 (localManager [''a'', ''b'', ''c'']) localWorld"
  have n1: "fst ?N = Inr (localManager [''a'', ''b'', ''c''])"
    by (simp add: run_defs)
  then have n: "?N = (Inr (localManager [''a'', ''b'', ''c'']), snd ?N)"
    by (metis prod.collapse)
  have x: "?X = (fst ?X, fst (snd ?X), snd (snd ?X))"
    by simp
  have s: "secondStart = (fst secondStart, fst (snd secondStart), snd (snd secondStart))"
    by simp
  then have s': "StartAll unixEnv 7 (fst (snd firstStart)) (snd (snd firstStart))
      = (fst secondStart, fst (snd secondStart), snd (snd secondStart))"
    by (simp add: secondStart_def)
  have e: "started (since localWorld (snd (snd ?X))) = [''a'', ''c'']"
    "GetProcessCount (fst (snd firstStart)) = 1"
    by (simp_all add: firstStart_def run_defs)
  from GetProcessCount_grows_by_started
         [of unixEnv False Map.empty "''/opt/bin''" "[''a'', ''b'', ''c'']" localWorld
             "localManager [''a'', ''b'', ''c'']" "snd ?N" unixEnv 7
             "localManager [''a'', ''b'', ''c'']" localWorld "fst ?X" "fst (snd ?X)" "snd (snd ?X)"]
       GetProcessCount_grows_by_started
         [of unixEnv False Map.empty "''/opt/bin''" "[''a'', ''b'', ''c'']" localWorld
             "localManager [''a'', ''b'', ''c'']" "snd ?N" unixEnv 7
             "fst (snd firstStart)" "snd (snd firstStart)" "fst secondStart"
             "fst (snd secondStart)" "snd (snd secondStart)"]
       n n1 x s' e
  show ?thesis
    by simp
qed

text \<open>
  Claim C3. \<open>StartAll\<close> attempts every name of \<open>execOrder\<close>, in that order and one after
  the other. The events of the call are the concatenation, in the order of \<open>execOrder\<close>,
  of one complete attempt per name (\<open>attemptEvents\<close>: the lookup, the write or chmod,
  the \<^verbatim>\<open>Start\<close> of \<^verbatim>\<open>cacheDir/name\<close> whenever the name resolved, and the outcome, failure
  line included), followed at most by the summary line: every event of one attempt comes
  before the first event of the next, and a failed attempt never stops the loop. So the
  paths looked up are those of all the names, every name has an outcome, and \<^verbatim>\<open>Start\<close> is
  called exactly once for each name that resolved, in order.
\<close>

theorem StartAll_attempts_every_name_in_order:
  assumes "StartAll env ctx bm w = (r, bm', w')"
  shows "lookups (since w w') = map (lookupPath env bm) (execOrder bm) \<and>
         outcomes (since w w') = execOrder bm \<and>
         (\<exists>blocks rest. since w w' = concat blocks @ rest \<and>
            list_all2 (\<lambda>n b. attemptBlock (lookupPath env bm n) n b) (execOrder bm) blocks \<and>
            lookups rest = [] \<and> outcomes rest = []) \<and>
         (\<exists>as rest. length as = length (execOrder bm) \<and>
            since w w' = concat (map2 (attemptEvents env ctx bm) (execOrder bm) as) @ rest \<and>
            (rest = [] \<or> (\<exists>k. rest = [EvLog (StartedCount k (length (execOrder bm)))])) \<and>
            map (\<lambda>(c, r). cmd_Path c) (startCalls (since w w'))
              = map (\<lambda>(n, a). Join env [cacheDir bm, n])
                  (filter (\<lambda>(n, a). resolves env bm n a) (zip (execOrder bm) as)))"
proof -
  from StartAll_trace [OF assms] obtain blocks rest where b:
    "since w w' = concat blocks @ rest"
    "rest = [] \<or> (\<exists>k. rest = [EvLog (StartedCount k (length (execOrder bm)))])"
    "list_all2 (\<lambda>n b. attemptBlock (lookupPath env bm n) n b) (execOrder bm) blocks"
    by blast
  from b(2) have rest: "lookups rest = []" "outcomes rest = []"
    by auto
  from b(1) rest blocks_lookups [OF b(3)] blocks_outcomes [OF b(3)]
  have 1: "lookups (since w w') = map (lookupPath env bm) (execOrder bm)"
    "outcomes (since w w') = execOrder bm"
    by simp_all
  from b(1,3) rest
  have 2: "\<exists>blocks rest. since w w' = concat blocks @ rest \<and>
      list_all2 (\<lambda>n b. attemptBlock (lookupPath env bm n) n b) (execOrder bm) blocks \<and>
      lookups rest = [] \<and> outcomes rest = []"
    by blast
  from StartAll_events [OF assms] obtain as rest' where a:
    "length as = length (execOrder bm)"
    "since w w' = concat (map2 (attemptEvents env ctx bm) (execOrder bm) as) @ rest'"
    "rest' = [] \<or> (\<exists>k. rest' = [EvLog (StartedCount k (length (execOrder bm)))])"
    by blast
  from a(3) have "startCalls rest' = []"
    by auto
  with a(1,2) map2_startCalls [of "execOrder bm" as env ctx bm]
  have "map (\<lambda>(c, r). cmd_Path c) (startCalls (since w w'))
      = map (\<lambda>(n, a). Join env [cacheDir bm, n])
          (filter (\<lambda>(n, a). resolves env bm n a) (zip (execOrder bm) as))"
    by simp
  with a have 3: "\<exists>as rest. length as = length (execOrder bm) \<and>
      since w w' = concat (map2 (attemptEvents env ctx bm) (execOrder bm) as) @ rest \<and>
      (rest = [] \<or> (\<exists>k. rest = [EvLog (StartedCount k (length (execOrder bm)))])) \<and>
      map (\<lambda>(c, r). cmd_Path c) (startCalls (since w w'))
        = map (\<lambda>(n, a). Join env [cacheDir bm, n])
            (filter (\<lambda>(n, a). resolves env bm n a) (zip (execOrder bm) as))"
    by blast
  from 1 2 3 show ?thesis by simp
qed

theorem StartAll_attempts_every_name_in_order_witness:
  "lookups (since localWorld
     (snd (snd (StartAll unixEnv 7 (localManager [''a'', ''b'', ''c'']) localWorld))))
     = [''/opt/bin/a'', ''/opt/bin/b'', ''/opt/bin/c''] \<and>
   outcomes (since localWorld
     (snd (snd (StartAll unixEnv 7 (localManager [''a'', ''b'', ''c'']) localWorld))))
     = [''a'', ''b'', ''c''] \<and>
   since localWorld (snd (snd (StartAll unixEnv 7 (localManager [''a'', ''b'', ''c'']) localWorld)))
     = concat (map2 (attemptEvents unixEnv 7 (localManager [''a'', ''b'', ''c'']))
         [''a'', ''b'', ''c'']
         [\<lparr>ans_found = True, ans_prepared = True, ans_start = Some 100\<rparr>,
          \<lparr>ans_found = False, ans_prepared = False, ans_start = None\<rparr>,
          \<lparr>ans_found = True, ans_prepared = True, ans_start = Some 101\<rparr>])
       @ [EvLog (StartedCount 2 3)] \<and>
   map (\<lambda>(c, r). cmd_Path c) (startCalls (since localWorld
     (snd (snd (StartAll unixEnv 7 (localManager [''a'', ''b'', ''c'']) localWorld)))))
     = [''/opt/bin/a'', ''/opt/bin/c'']"
proof -
  let ?X = "StartAll unixEnv 7 (localManager [''a'', ''b'', ''c'']) localWorld"
  have x: "?X = (fst ?X, fst (snd ?X), snd (snd ?X))"
    by simp
  have e: "since localWorld (snd (snd ?X))
      = concat (map2 (attemptEvents unixEnv 7 (localManager [''a'', ''b'', ''c'']))
          [''a'', ''b'', ''c'']
          [\<lparr>ans_found = True, ans_prepared = True, ans_start = Some 100\<rparr>,
           \<lparr>ans_found = False, ans_prepared = False, ans_start = None\<rparr>,
           \<lparr>ans_found = True, ans_prepared = True, ans_start = Some 101\<rparr>])
        @ [EvLog (StartedCount 2 3)]"
    "map (\<lambda>(c, r). cmd_Path c) (startCalls (since localWorld (snd (snd ?X))))
      = [''/opt/bin/a'', ''/opt/bin/c'']"
    by (simp_all add: run_defs attemptEvents_def launchEvents_def)
  from StartAll_attempts_every_name_in_order [OF x] e show ?thesis
    by (simp add: lookupPath_def localManager_def unixEnv_def)
qed


section \<open>Resolving and launching one binary\<close>

lemma executable_0755: "executable perm_0755"
  by (simp add: executable_def perm_0755_def)

lemma launch_nodes:
  assumes "launch env ctx name path bm w = (r, bm', w')"
  shows "nodes w' = nodes w"
    and "r = None \<Longrightarrow> \<exists>c m. nodes w path = Some (File c m) \<and> executable m"
    and "r \<noteq> None \<Longrightarrow> bm' = bm \<and> procs w' = procs w"
  using assms
  by (auto simp: launch_def Let_def CommandContext_def split: option.splits prod.splits
           dest: cmd_Start_trace cmd_Start_Some cmd_Start_None)

lemma os_WriteFile_ok_mode:
  "os_WriteFile env name data perm w = (True, w1) \<Longrightarrow>
     nodes w1 name =
       Some (File data (case nodes w name of Some (File c m) \<Rightarrow> m
                        | _ \<Rightarrow> perm AND NOT (umask env)))"
  by (auto simp: os_WriteFile_def Let_def split: option.splits node.splits write_outcome.splits)

text \<open>
  What embedded mode does for every name. The bytes of \<^verbatim>\<open>bin/name\<close> are read first;
  when they are absent the attempt fails with \<open>PayloadNotFoundError\<close> after that read
  alone. When they are present, the next call is a \<^verbatim>\<open>WriteFile\<close> of exactly these bytes
  to \<^verbatim>\<open>cacheDir/name\<close>, asking for mode \<^verbatim>\<open>0755\<close>; a failed write ends the attempt with
  \<open>ExtractionError\<close> and no process. A successful write leaves the file with these bytes
  and with the mode it had before if it existed, \<^verbatim>\<open>0755\<close> less the umask if not. After a
  successful launch the file exists, is executable and holds the bytes of the payload.
\<close>

lemma embedded_extract_then_launch:
  assumes "useEmbedded bm"
      and "startBinary env ctx name bm w = (r, bm', w')"
  shows "(binaries bm (Join env [''bin'', name]) = None \<longrightarrow>
            r = Some (PayloadNotFoundError name) \<and> bm' = bm \<and>
            w' = emit (EvReadFile (Join env [''bin'', name]) False) w) \<and>
         (\<forall>data. binaries bm (Join env [''bin'', name]) = Some data \<longrightarrow>
            (\<exists>ok rest. since w w' =
                 EvReadFile (Join env [''bin'', name]) True
                 # EvWriteFile (Join env [cacheDir bm, name]) data perm_0755 ok # rest \<and>
               (if ok then
                  nodes w' (Join env [cacheDir bm, name]) =
                    Some (File data
                      (case nodes w (Join env [cacheDir bm, name]) of
                         Some (File c m) \<Rightarrow> m
                       | _ \<Rightarrow> perm_0755 AND NOT (umask env)))
                else r = Some (ExtractionError name) \<and> rest = [] \<and> bm' = bm \<and>
                     procs w' = procs w))) \<and>
         executable perm_0755 \<and>
         (r = None \<longrightarrow>
            (\<exists>data m. binaries bm (Join env [''bin'', name]) = Some data \<and>
               nodes w' (Join env [cacheDir bm, name]) = Some (File data m) \<and> executable m))"
proof (cases "binaries bm (Join env [''bin'', name])")
  case None
  with assms show ?thesis
    by (auto simp: startBinary_def resolveEmbedded_def fs_ReadFile_eq Let_def executable_0755)
next
  case (Some data)
  let ?src = "Join env [''bin'', name]" and ?dst = "Join env [cacheDir bm, name]"
  let ?w1 = "emit (EvReadFile ?src True) w"
  let ?m = "case nodes w ?dst of Some (File c m) \<Rightarrow> m | _ \<Rightarrow> perm_0755 AND NOT (umask env)"
  obtain ok w2 where wr: "os_WriteFile env ?dst data perm_0755 ?w1 = (ok, w2)"
    by (cases "os_WriteFile env ?dst data perm_0755 ?w1")
  from os_WriteFile_trace [OF wr]
  have t2: "trace w2 = trace w @ [EvReadFile ?src True, EvWriteFile ?dst data perm_0755 ok]"
    "procs w2 = procs w"
    by simp_all
  show ?thesis
  proof (cases ok)
    case False
    with assms Some wr have "r = Some (ExtractionError name)" "bm' = bm" "w' = w2"
      by (simp_all add: startBinary_def resolveEmbedded_def fs_ReadFile_eq Let_def)
    with Some False t2 show ?thesis
      by (auto simp: since_append executable_0755)
  next
    case True
    with wr have "os_WriteFile env ?dst data perm_0755 ?w1 = (True, w2)"
      by simp
    from os_WriteFile_ok_mode [OF this] have m: "nodes w2 ?dst = Some (File data ?m)"
      by simp
    let ?w3 = "logf (Extracted name ?dst) w2"
    from assms Some wr True have l: "launch env ctx name ?dst bm ?w3 = (r, bm', w')"
      by (simp add: startBinary_def resolveEmbedded_def fs_ReadFile_eq Let_def)
    from launch_trace [OF l] obtain d where "trace w' = trace ?w3 @ d"
      by blast
    with t2 have s: "since w w' = EvReadFile ?src True # EvWriteFile ?dst data perm_0755 ok
        # EvLog (Extracted name ?dst) # d"
      by (simp add: since_append)
    from launch_nodes(1) [OF l] m have n: "nodes w' ?dst = Some (File data ?m)"
      by simp
    have "r = None \<Longrightarrow> executable ?m"
      using launch_nodes(2) [OF l] m by auto
    with Some True s n show ?thesis
      by (auto simp: executable_0755)
  qed
qed

lemma embedded_fresh_cache_example:
  "useEmbedded (embeddedManager [''a'', ''b'']) \<and>
   fst (startBinary unixEnv 7 ''a'' (embeddedManager [''a'', ''b'']) cacheWorld) = None \<and>
   (\<exists>m. nodes (snd (snd (startBinary unixEnv 7 ''a'' (embeddedManager [''a'', ''b'']) cacheWorld)))
          ''/home/u/.cache/wachat/bin/a'' = Some (File [7, 8, 9] m) \<and> executable m) \<and>
   fst (startBinary unixEnv 7 ''b'' (embeddedManager [''a'', ''b'']) cacheWorld)
     = Some (PayloadNotFoundError ''b'')"
proof -
  let ?X = "startBinary unixEnv 7 ''a'' (embeddedManager [''a'', ''b'']) cacheWorld"
  let ?Y = "startBinary unixEnv 7 ''b'' (embeddedManager [''a'', ''b'']) cacheWorld"
  have e: "useEmbedded (embeddedManager [''a'', ''b''])"
    by (simp add: embeddedManager_def)
  have x: "?X = (fst ?X, fst (snd ?X), snd (snd ?X))" and y: "?Y = (fst ?Y, fst (snd ?Y), snd (snd ?Y))"
    by simp_all
  have r: "fst ?X = None"
    by (simp add: run_defs)
  from embedded_extract_then_launch [OF e x] embedded_extract_then_launch [OF e y] e r
  show ?thesis
    by (simp add: embeddedManager_def unixEnv_def)
qed

text \<open>
  Claim C4. In embedded mode the extracted file is to be on disk with its execute
  permission bits set, and the source asks \<^verbatim>\<open>os.WriteFile\<close> for mode \<^verbatim>\<open>0755\<close>. That call
  gives the mode only to a file it creates, and the embedded branch has no \<^verbatim>\<open>Chmod\<close>
  (the local branch has one, under the comment \<^verbatim>\<open>Ensure executable permission\<close>). With a
  file \<^verbatim>\<open>cacheDir/a\<close> already there with mode \<^verbatim>\<open>0644\<close>, the bytes of the payload are read
  and written successfully and \<^verbatim>\<open>Extracted\<close> is logged, but the file keeps mode \<^verbatim>\<open>0644\<close>:
  it holds the exact bytes without any execute bit, \<^verbatim>\<open>Start\<close> fails, and the attempt for
  \<^verbatim>\<open>a\<close> ends with \<open>LaunchError\<close>.
\<close>

theorem stale_cache_file_stays_not_executable:
  "useEmbedded (embeddedManager [''a'']) \<and>
   binaries (embeddedManager [''a'']) ''bin/a'' = Some [7, 8, 9] \<and>
   nodes staleCacheWorld ''/home/u/.cache/wachat/bin/a'' = Some (File [1] 420) \<and>
   since staleCacheWorld
     (snd (snd (startBinary unixEnv 7 ''a'' (embeddedManager [''a'']) staleCacheWorld)))
     = [EvReadFile ''bin/a'' True,
        EvWriteFile ''/home/u/.cache/wachat/bin/a'' [7, 8, 9] perm_0755 True,
        EvLog (Extracted ''a'' ''/home/u/.cache/wachat/bin/a''),
        EvStart \<lparr>cmd_ctx = 7, cmd_Path = ''/home/u/.cache/wachat/bin/a'',
                 cmd_Dir = ''/home/u/.cache/wachat/bin'', cmd_Stdout = Some OsStdout,
                 cmd_Stderr = Some OsStderr, cmd_Process = None\<rparr> None] \<and>
   nodes (snd (snd (startBinary unixEnv 7 ''a'' (embeddedManager [''a'']) staleCacheWorld)))
     ''/home/u/.cache/wachat/bin/a'' = Some (File [7, 8, 9] 420) \<and>
   \<not> executable 420 \<and>
   fst (startBinary unixEnv 7 ''a'' (embeddedManager [''a'']) staleCacheWorld)
     = Some (LaunchError ''a'')"
  by (simp add: run_defs staleCacheWorld_def)

lemma launch_start:
  assumes "launch env ctx name path bm w = (r, bm', w')"
  shows "\<exists>res rest. trace w' = trace w @
            EvStart \<lparr>cmd_ctx = ctx, cmd_Path = path, cmd_Dir = cacheDir bm,
                     cmd_Stdout = Some OsStdout, cmd_Stderr = Some OsStderr,
                     cmd_Process = None\<rparr> res # rest \<and>
          (case res of
             Some p \<Rightarrow> r = None \<and>
               processes bm' = processes bm @
                 [\<lparr>cmd_ctx = ctx, cmd_Path = path, cmd_Dir = cacheDir bm,
                   cmd_Stdout = Some OsStdout, cmd_Stderr = Some OsStderr,
                   cmd_Process = Some p\<rparr>]
           | None \<Rightarrow> r = Some (LaunchError name) \<and> rest = [] \<and> bm' = bm)"
  using assms
  by (auto simp: launch_def Let_def CommandContext_def split: option.splits prod.splits
           dest!: cmd_Start_trace)

text \<open>
  Claim C5. In local mode, for every name \<open>X\<close>: when \<^verbatim>\<open>cacheDir/X\<close> does not exist,
  \<open>startBinary\<close> fails with \<open>BinaryNotFoundError\<close> after the \<^verbatim>\<open>Stat\<close> alone, with the
  manager and the process table as they were; \<open>StartAll\<close> all the same looks up the
  path of every name of \<open>execOrder\<close>, the later ones included. When the file exists and
  the \<^verbatim>\<open>Chmod\<close> fails, the failure is logged as a warning and \<^verbatim>\<open>Start\<close> is called on the
  file nevertheless; the result of the attempt is that of the \<^verbatim>\<open>Start\<close>.
\<close>

theorem local_missing_binary_and_failed_chmod:
  assumes "\<not> useEmbedded bm"
  shows "(nodes w (Join env [cacheDir bm, X]) = None \<longrightarrow>
            startBinary env ctx X bm w =
              (Some (BinaryNotFoundError X (Join env [cacheDir bm, X])), bm,
               emit (EvStat (Join env [cacheDir bm, X]) False) w)) \<and>
         lookups (since w (snd (snd (StartAll env ctx bm w))))
           = map (\<lambda>n. Join env [cacheDir bm, n]) (execOrder bm) \<and>
         (nodes w (Join env [cacheDir bm, X]) \<noteq> None \<and>
          \<not> statRefused env w (Join env [cacheDir bm, X]) \<and>
          \<not> fst (os_Chmod env (Join env [cacheDir bm, X]) perm_0755
                   (emit (EvStat (Join env [cacheDir bm, X]) True) w)) \<longrightarrow>
            (\<exists>res rest.
               since w (snd (snd (startBinary env ctx X bm w))) =
                 [EvStat (Join env [cacheDir bm, X]) True,
                  EvChmod (Join env [cacheDir bm, X]) perm_0755 False,
                  EvLog (WarnChmodFailed X),
                  EvLog (UsingLocalBinary (Join env [cacheDir bm, X])),
                  EvStart \<lparr>cmd_ctx = ctx, cmd_Path = Join env [cacheDir bm, X],
                           cmd_Dir = cacheDir bm, cmd_Stdout = Some OsStdout,
                           cmd_Stderr = Some OsStderr, cmd_Process = None\<rparr> res] @ rest \<and>
               (case res of
                  Some p \<Rightarrow> fst (startBinary env ctx X bm w) = None
                | None \<Rightarrow> fst (startBinary env ctx X bm w) = Some (LaunchError X))))"
proof -
  let ?p = "Join env [cacheDir bm, X]"
  have a: "nodes w ?p = None \<longrightarrow>
      startBinary env ctx X bm w = (Some (BinaryNotFoundError X ?p), bm, emit (EvStat ?p False) w)"
    using assms by (simp add: startBinary_def resolveLocal_def os_Stat_eq Let_def)
  have b: "lookups (since w (snd (snd (StartAll env ctx bm w))))
      = map (\<lambda>n. Join env [cacheDir bm, n]) (execOrder bm)"
  proof -
    obtain r bm' w' where run: "StartAll env ctx bm w = (r, bm', w')"
      by (cases "StartAll env ctx bm w")
    from StartAll_trace [OF run] obtain blocks rest where
      "since w w' = concat blocks @ rest"
      "rest = [] \<or> (\<exists>k. rest = [EvLog (StartedCount k (length (execOrder bm)))])"
      "list_all2 (\<lambda>n b. attemptBlock (lookupPath env bm n) n b) (execOrder bm) blocks"
      by blast
    with blocks_lookups [of "lookupPath env bm" "execOrder bm" blocks]
    have "lookups (since w w') = map (lookupPath env bm) (execOrder bm)"
      by auto
    with run assms show ?thesis
      by (simp add: lookupPath_def)
  qed
  have c: "\<exists>res rest.
       since w (snd (snd (startBinary env ctx X bm w))) =
         [EvStat ?p True, EvChmod ?p perm_0755 False, EvLog (WarnChmodFailed X),
          EvLog (UsingLocalBinary ?p),
          EvStart \<lparr>cmd_ctx = ctx, cmd_Path = ?p, cmd_Dir = cacheDir bm,
                   cmd_Stdout = Some OsStdout, cmd_Stderr = Some OsStderr,
                   cmd_Process = None\<rparr> res] @ rest \<and>
       (case res of
          Some p \<Rightarrow> fst (startBinary env ctx X bm w) = None
        | None \<Rightarrow> fst (startBinary env ctx X bm w) = Some (LaunchError X))"
    if ex: "nodes w ?p \<noteq> None" "\<not> statRefused env w ?p"
      and ch: "\<not> fst (os_Chmod env ?p perm_0755 (emit (EvStat ?p True) w))"
  proof -
    let ?w1 = "emit (EvStat ?p True) w"
    obtain ok w2 where cm: "os_Chmod env ?p perm_0755 ?w1 = (ok, w2)"
      by (cases "os_Chmod env ?p perm_0755 ?w1")
    with ch have ok: "\<not> ok" by simp
    let ?w4 = "logf (UsingLocalBinary ?p) (logf (WarnChmodFailed X) w2)"
    obtain r bm' w' where l: "launch env ctx X ?p bm ?w4 = (r, bm', w')"
      by (cases "launch env ctx X ?p bm ?w4")
    from assms ex cm ok l have sb: "startBinary env ctx X bm w = (r, bm', w')"
      by (auto simp: startBinary_def resolveLocal_def os_Stat_eq Let_def)
    from os_Chmod_trace [OF cm] ok
    have "trace ?w4 = trace w @ [EvStat ?p True, EvChmod ?p perm_0755 False,
        EvLog (WarnChmodFailed X), EvLog (UsingLocalBinary ?p)]"
      by simp
    with launch_start [OF l] sb show ?thesis
      by (auto simp: since_append split: option.splits)
  qed
  from a b c show ?thesis by blast
qed

theorem local_missing_binary_and_failed_chmod_witness:
  "\<not> useEmbedded (localManager [''b'', ''a'']) \<and>
   nodes localWorld ''/opt/bin/b'' = None \<and>
   fst (startBinary unixEnv 7 ''b'' (localManager [''b'', ''a'']) localWorld)
     = Some (BinaryNotFoundError ''b'' ''/opt/bin/b'') \<and>
   lookups (since localWorld (snd (snd (StartAll unixEnv 7 (localManager [''b'', ''a'']) localWorld))))
     = [''/opt/bin/b'', ''/opt/bin/a''] \<and>
   \<not> fst (os_Chmod (unixEnv\<lparr>chmodRefused := \<lambda>w p. True\<rparr>) ''/opt/bin/a'' perm_0755
            (emit (EvStat ''/opt/bin/a'' True) localWorld)) \<and>
   fst (startBinary (unixEnv\<lparr>chmodRefused := \<lambda>w p. True\<rparr>) 7 ''a''
          (localManager [''b'', ''a'']) localWorld) = None"
proof -
  let ?bm = "localManager [''b'', ''a'']"
  let ?env = "unixEnv\<lparr>chmodRefused := \<lambda>w p. True\<rparr>"
  have l: "\<not> useEmbedded ?bm"
    by (simp add: localManager_def)
  have ch: "\<not> fst (os_Chmod ?env ''/opt/bin/a'' perm_0755
      (emit (EvStat ''/opt/bin/a'' True) localWorld))"
    by (simp add: run_defs)
  have ok: "fst (startBinary ?env 7 ''a'' ?bm localWorld) = None"
    by (simp add: run_defs)
  from local_missing_binary_and_failed_chmod [OF l, of localWorld unixEnv "''b''" 7]
       local_missing_binary_and_failed_chmod [OF l, of localWorld ?env "''a''" 7] l ch ok
  show ?thesis
    by (simp add: localManager_def unixEnv_def localWorld_def)
qed


section \<open>Repeated names\<close>





section \<open>Construction\<close>

text \<open>
  Claim C7. \<open>NewBinaryManagerFromConfig\<close> fails with a \<open>ConfigError\<close> when the
  configuration is absent (a nil interface, or an interface holding a nil pointer, for
  which \<open>IsEnabled\<close> is false), when the feature is disabled, and when the startup order
  is empty. The error does not depend on the environment, and the world comes back
  unchanged: no directory is created, no file is touched and no call is made.
\<close>

theorem construction_refused_without_effects:
  "NewBinaryManagerFromConfig env None bins w
     = (Inl (ConfigError ''binary manager is disabled''), w) \<and>
   \<not> IsEnabled None \<and>
   (\<not> IsEnabled c \<longrightarrow>
      NewBinaryManagerFromConfig env (Some c) bins w
        = (Inl (ConfigError ''binary manager is disabled''), w)) \<and>
   (IsEnabled c \<and> GetStartupOrder c = [] \<longrightarrow>
      NewBinaryManagerFromConfig env (Some c) bins w
        = (Inl (ConfigError ''no binaries in startup_order''), w)) \<and>
   (GetStartupOrder c = [] \<longrightarrow>
      (\<exists>msg. NewBinaryManagerFromConfig env (Some c) bins w = (Inl (ConfigError msg), w)))"
  by (auto simp: NewBinaryManagerFromConfig_def IsEnabled_def Let_def)

theorem construction_refused_without_effects_witness:
  "\<not> IsEnabled (Some \<lparr>Enabled = False, UseEmbedded = True, BinPath = ''./bin'',
                    StartupOrder = [''a'']\<rparr>) \<and>
   NewBinaryManagerFromConfig unixEnv
     (Some (Some \<lparr>Enabled = False, UseEmbedded = True, BinPath = ''./bin'',
                   StartupOrder = [''a'']\<rparr>)) Map.empty cacheWorld
     = (Inl (ConfigError ''binary manager is disabled''), cacheWorld) \<and>
   IsEnabled (Some \<lparr>Enabled = True, UseEmbedded = True, BinPath = ''./bin'',
                    StartupOrder = []\<rparr>) \<and>
   GetStartupOrder (Some \<lparr>Enabled = True, UseEmbedded = True, BinPath = ''./bin'',
                          StartupOrder = []\<rparr>) = [] \<and>
   NewBinaryManagerFromConfig unixEnv
     (Some (Some \<lparr>Enabled = True, UseEmbedded = True, BinPath = ''./bin'',
                   StartupOrder = []\<rparr>)) Map.empty cacheWorld
     = (Inl (ConfigError ''no binaries in startup_order''), cacheWorld)"
  using construction_refused_without_effects
          [of unixEnv Map.empty cacheWorld
              "Some \<lparr>Enabled = False, UseEmbedded = True, BinPath = ''./bin'',
                      StartupOrder = [''a'']\<rparr>"]
        construction_refused_without_effects
          [of unixEnv Map.empty cacheWorld
              "Some \<lparr>Enabled = True, UseEmbedded = True, BinPath = ''./bin'',
                      StartupOrder = []\<rparr>"]
  by (simp add: IsEnabled_def GetStartupOrder_def)


section \<open>Cleanup\<close>

lemma livePids_simps [simp]:
  "livePids [] = []"
  "livePids (c # cs) = (case cmd_Process c of None \<Rightarrow> livePids cs | Some p \<Rightarrow> p # livePids cs)"
  by (simp_all add: livePids_def split: option.splits)

lemma cleanupLoop_trace:
  "\<exists>d. trace (cleanupLoop env i cs w) = trace w @ d \<and> map fst (kills d) = livePids cs \<and>
        list_all cleanupEvent d"
proof (induction cs arbitrary: i w)
  case Nil
  then show ?case by simp
next
  case (Cons c cs)
  show ?case
  proof (cases "cmd_Process c")
    case None
    with Cons.IH [of "Suc i" w] show ?thesis by simp
  next
    case (Some p)
    let ?w1 = "logf (Terminating i p) w"
    obtain ok w2 where k: "Process_Kill env p ?w1 = (ok, w2)"
      by (cases "Process_Kill env p ?w1")
    let ?w3 = "if \<not> ok then logf (FailedToKill i) w2 else w2"
    from Process_Kill_trace [OF k]
    have t: "trace ?w3 = trace w @ (EvLog (Terminating i p) # EvKill p ok #
        (if \<not> ok then [EvLog (FailedToKill i)] else []))"
      by simp
    from Cons.IH [of "Suc i" ?w3] obtain d where d:
      "trace (cleanupLoop env (Suc i) cs ?w3) = trace ?w3 @ d"
      "map fst (kills d) = livePids cs" "list_all cleanupEvent d"
      by blast
    from Some k have "cleanupLoop env i (c # cs) w = cleanupLoop env (Suc i) cs ?w3"
      by (simp add: Let_def)
    with t d Some show ?thesis
      by (intro exI [of _ "(EvLog (Terminating i p) # EvKill p ok #
            (if \<not> ok then [EvLog (FailedToKill i)] else [])) @ d"]) simp
  qed
qed

lemma cleanupLoop_nodes: "nodes (cleanupLoop env i cs w) = nodes w"
proof (induction cs arbitrary: i w)
  case Nil
  then show ?case by simp
next
  case (Cons c cs)
  show ?case
  proof (cases "cmd_Process c")
    case None
    with Cons.IH show ?thesis by simp
  next
    case (Some p)
    obtain ok w2 where k: "Process_Kill env p (logf (Terminating i p) w) = (ok, w2)"
      by (cases "Process_Kill env p (logf (Terminating i p) w)")
    with Process_Kill_trace [OF k] Some Cons.IH show ?thesis
      by (simp add: Let_def)
  qed
qed

lemma cleanupLoop_no_process: "livePids cs = [] \<Longrightarrow> cleanupLoop env i cs w = w"
  by (induction cs arbitrary: i) (auto split: option.splits)

text \<open>
  Claim C8. \<open>Cleanup\<close> can be called in every state and called again: whatever the
  manager holds and however the operating system answers, a call signals exactly the
  handles whose process is not nil, each once and in order, also after a \<^verbatim>\<open>Kill\<close> that
  failed; it does nothing but log and signal, leaves the file system alone, and changes
  nothing at all when there are no handles. A second call right after the first does
  the same again. \<open>Cleanup\<close> has no error result, and a failed \<^verbatim>\<open>Kill\<close> only adds a line
  to the log.
\<close>

theorem Cleanup_is_safe_to_repeat:
  assumes "Cleanup env bm w = (bm', w')"
      and "Cleanup env bm' w' = (bm'', w'')"
  shows "map fst (kills (since w w')) = livePids (processes bm) \<and>
         list_all cleanupEvent (since w w') \<and> nodes w' = nodes w \<and>
         (processes bm = [] \<longrightarrow> w' = w) \<and>
         map fst (kills (since w' w'')) = livePids (processes bm) \<and>
         list_all cleanupEvent (since w' w'') \<and> nodes w'' = nodes w"
proof -
  from assms have eq: "bm' = bm" "w' = cleanupLoop env 0 (processes bm) w"
    "w'' = cleanupLoop env 0 (processes bm) w'"
    by (auto simp: Cleanup_def)
  from cleanupLoop_trace [of env 0 "processes bm" w] eq(2)
  have 1: "map fst (kills (since w w')) = livePids (processes bm) \<and>
      list_all cleanupEvent (since w w')"
    by (auto simp: since_append)
  from cleanupLoop_trace [of env 0 "processes bm" w'] eq(3)
  have 2: "map fst (kills (since w' w'')) = livePids (processes bm) \<and>
      list_all cleanupEvent (since w' w'')"
    by (auto simp: since_append)
  from eq have 3: "nodes w' = nodes w" "nodes w'' = nodes w" "processes bm = [] \<longrightarrow> w' = w"
    by (auto simp: cleanupLoop_nodes)
  from 1 2 3 show ?thesis by simp
qed

theorem Cleanup_is_safe_to_repeat_witness:
  "livePids (processes runningManager) = [100] \<and>
   kills (since runningWorld (snd (Cleanup onceEnv runningManager runningWorld))) = [(100, True)] \<and>
   kills (since (snd (Cleanup onceEnv runningManager runningWorld))
     (snd (Cleanup onceEnv runningManager (snd (Cleanup onceEnv runningManager runningWorld)))))
     = [(100, False)] \<and>
   snd (Cleanup onceEnv (localManager [''a'']) localWorld) = localWorld"
proof -
  let ?C1 = "Cleanup onceEnv runningManager runningWorld"
  let ?C2 = "Cleanup onceEnv (fst ?C1) (snd ?C1)"
  let ?D1 = "Cleanup onceEnv (localManager [''a'']) localWorld"
  let ?D2 = "Cleanup onceEnv (fst ?D1) (snd ?D1)"
  have c: "?C1 = (fst ?C1, snd ?C1)" "?C2 = (fst ?C2, snd ?C2)"
    and d: "?D1 = (fst ?D1, snd ?D1)" "?D2 = (fst ?D2, snd ?D2)"
    by simp_all
  have e: "processes (localManager [''a'']) = []"
    by (simp add: localManager_def)
  have f: "fst ?C1 = runningManager"
    by (simp add: Cleanup_def)
  have k: "kills (since runningWorld (snd ?C1)) = [(100, True)]"
    "kills (since (snd ?C1) (snd ?C2)) = [(100, False)]"
    by (simp_all add: run_defs onceEnv_def)
  from Cleanup_is_safe_to_repeat [OF c] Cleanup_is_safe_to_repeat [OF d] e k f
  show ?thesis by simp
qed

lemma CleanupTimes_fst: "fst (CleanupTimes n env bm w) = bm"
  by (induction n) (simp_all add: CleanupTimes_def Cleanup_def split_beta)

text \<open>
  Claim C10. \<open>Cleanup\<close> leaves the manager as it found it: after any number of calls
  the list of handles, and with it \<open>GetProcessCount\<close>, is what it was before. Handles
  of terminated processes are never removed.
\<close>

theorem Cleanup_keeps_handles:
  "fst (Cleanup env bm w) = bm \<and>
   processes (fst (CleanupTimes n env bm w)) = processes bm \<and>
   GetProcessCount (fst (CleanupTimes n env bm w)) = GetProcessCount bm"
  by (simp add: CleanupTimes_fst Cleanup_def)

section \<open>The application without a manager\<close>

text \<open>
  Claim C9. When the construction of the manager fails, in particular for a disabled
  configuration or an empty startup order, \<open>NewApp\<close> logs the error and still returns
  the application, with a nil manager (given that \<^verbatim>\<open>backend.NewAPI\<close> itself succeeded).
  With a nil manager, \<open>startup\<close> only stores and forwards the context and \<open>shutdown\<close>
  does nothing: neither calls into the manager.
\<close>

theorem app_runs_without_manager:
  assumes "NewAPI env = Some api"
  shows "(\<not> IsEnabled (Binaries c) \<or> GetStartupOrder (Binaries c) = [] \<longrightarrow>
            (\<exists>msg. NewApp env (Some c) bins w =
               (Inr \<lparr>app_ctx = None, chatAPI = api, binaryManager = None\<rparr>,
                logf (BinaryManagerFailed (ConfigError msg)) w))) \<and>
         (\<forall>err w1. NewBinaryManagerFromConfig env (Some (Binaries c)) bins w = (Inl err, w1) \<longrightarrow>
            NewApp env (Some c) bins w =
              (Inr \<lparr>app_ctx = None, chatAPI = api, binaryManager = None\<rparr>,
               logf (BinaryManagerFailed err) w1)) \<and>
         (binaryManager a = None \<longrightarrow>
            startup env ctx a w = (a\<lparr>app_ctx := Some ctx\<rparr>, emit (EvSetContext ctx) w) \<and>
            shutdown env ctx a w = (a, w))"
proof -
  have 2: "\<forall>err w1. NewBinaryManagerFromConfig env (Some (Binaries c)) bins w = (Inl err, w1) \<longrightarrow>
      NewApp env (Some c) bins w =
        (Inr \<lparr>app_ctx = None, chatAPI = api, binaryManager = None\<rparr>,
         logf (BinaryManagerFailed err) w1)"
    using assms by (simp add: NewApp_def)
  have "\<exists>msg. NewBinaryManagerFromConfig env (Some (Binaries c)) bins w = (Inl (ConfigError msg), w)"
    if "\<not> IsEnabled (Binaries c) \<or> GetStartupOrder (Binaries c) = []"
    using that by (auto simp: NewBinaryManagerFromConfig_def Let_def)
  with 2 have 1: "\<not> IsEnabled (Binaries c) \<or> GetStartupOrder (Binaries c) = [] \<longrightarrow>
      (\<exists>msg. NewApp env (Some c) bins w =
         (Inr \<lparr>app_ctx = None, chatAPI = api, binaryManager = None\<rparr>,
          logf (BinaryManagerFailed (ConfigError msg)) w))"
    by blast
  have 3: "binaryManager a = None \<longrightarrow>
      startup env ctx a w = (a\<lparr>app_ctx := Some ctx\<rparr>, emit (EvSetContext ctx) w) \<and>
      shutdown env ctx a w = (a, w)"
    by (simp add: startup_def shutdown_def Let_def)
  from 1 2 3 show ?thesis by blast
qed

theorem app_runs_without_manager_witness:
  "NewAPI unixEnv = Some API \<and>
   \<not> IsEnabled (Binaries \<lparr>AI = None, Binaries = None\<rparr>) \<and>
   fst (NewApp unixEnv (Some \<lparr>AI = None, Binaries = None\<rparr>) Map.empty cacheWorld)
     = Inr \<lparr>app_ctx = None, chatAPI = API, binaryManager = None\<rparr> \<and>
   startup unixEnv 7 \<lparr>app_ctx = None, chatAPI = API, binaryManager = None\<rparr> cacheWorld
     = (\<lparr>app_ctx = Some 7, chatAPI = API, binaryManager = None\<rparr>,
        emit (EvSetContext 7) cacheWorld) \<and>
   shutdown unixEnv 7 \<lparr>app_ctx = Some 7, chatAPI = API, binaryManager = None\<rparr> cacheWorld
     = (\<lparr>app_ctx = Some 7, chatAPI = API, binaryManager = None\<rparr>, cacheWorld)"
proof -
  have api: "NewAPI unixEnv = Some API"
    by (simp add: unixEnv_def)
  from app_runs_without_manager [OF api, of "\<lparr>AI = None, Binaries = None\<rparr>" Map.empty
         cacheWorld "\<lparr>app_ctx = None, chatAPI = API, binaryManager = None\<rparr>" 7]
       app_runs_without_manager [OF api, of "\<lparr>AI = None, Binaries = None\<rparr>" Map.empty
         cacheWorld "\<lparr>app_ctx = Some 7, chatAPI = API, binaryManager = None\<rparr>" 7] api
  show ?thesis
    by (auto simp: IsEnabled_def)
qed


end
